theory Spec2Isabelle
  imports Main "HOL-Library.AList"
begin

section \<open>Values of the host language\<close>

text \<open>
  A JavaScript error object, as far as \<^verbatim>\<open>packages/core/src/index.ts\<close> looks at it:
  its \<^verbatim>\<open>name\<close> and its \<^verbatim>\<open>message\<close>.
\<close>

datatype js_error = JsError (err_name: string) (err_message: string)

text \<open>\<^verbatim>\<open>new Error(msg)\<close>: the name of a plain error is \<^verbatim>\<open>Error\<close>.\<close>

definition Error :: "string \<Rightarrow> js_error" where
  "Error msg = JsError ''Error'' msg"

text \<open>\<^verbatim>\<open>Error.prototype.toString\<close>, used by the template of the log line.\<close>

definition toString :: "js_error \<Rightarrow> string" where
  "toString e =
     (if err_name e = [] then err_message e
      else if err_message e = [] then err_name e
      else err_name e @ '': '' @ err_message e)"

text \<open>
  JSON values: what an event carries (context values, the affected user, backtrace
  frames) and what \<^verbatim>\<open>JSON.parse\<close> returns. A number is an integer of magnitude below
  \<open>2\<^sup>5\<^sup>3\<close>, which JavaScript prints in decimal; other numbers are outside the model.
  An object lists its own properties, each key once, and is a plain object: its
  prototype is \<^verbatim>\<open>Object.prototype\<close>.
\<close>

datatype json =
    JNull
  | JBool bool
  | JNum int
  | JStr string
  | JArr "json list"
  | JObj "(string \<times> json) list"

text \<open>\<^verbatim>\<open>ToBoolean\<close>: the values that \<^verbatim>\<open>!\<close> and \<^verbatim>\<open>||\<close> take as true.\<close>

fun truthy :: "json \<Rightarrow> bool" where
  "truthy JNull = False"
| "truthy (JBool b) = b"
| "truthy (JNum n) = (n \<noteq> 0)"
| "truthy (JStr s) = (s \<noteq> [])"
| "truthy (JArr xs) = True"
| "truthy (JObj ps) = True"

text \<open>
  \<^verbatim>\<open>ToString\<close>, which a template literal applies to the value it embeds: a string is
  itself, an array is its elements joined by commas with \<^verbatim>\<open>null\<close> printed as nothing,
  a plain object is \<^verbatim>\<open>[object Object]\<close>.
\<close>

definition digit :: "nat \<Rightarrow> char" where
  "digit d = ''0123456789'' ! d"

fun decimal :: "nat \<Rightarrow> string" where
  "decimal n = (if 10 \<le> n then decimal (n div 10) @ [digit (n mod 10)] else [digit n])"

definition Number_toString :: "int \<Rightarrow> string" where
  "Number_toString n = (if 0 \<le> n then decimal (nat n) else CHR ''-'' # decimal (nat (- n)))"

fun join :: "string list \<Rightarrow> string" where
  "join [] = []"
| "join [s] = s"
| "join (s # t # ss) = s @ '','' @ join (t # ss)"

fun ToString :: "json \<Rightarrow> string" where
  "ToString JNull = ''null''"
| "ToString (JBool b) = (if b then ''true'' else ''false'')"
| "ToString (JNum n) = Number_toString n"
| "ToString (JStr s) = s"
| "ToString (JArr xs) = join (map (\<lambda>x. if x = JNull then [] else ToString x) xs)"
| "ToString (JObj ps) = ''[object Object]''"

text \<open>
  The property read \<^verbatim>\<open>.integrationId\<close> on a value other than \<^verbatim>\<open>null\<close>: the own
  property of an object, and undefined (\<open>None\<close>) when the object has none and on every
  other value.
\<close>

definition integrationId_of :: "json \<Rightarrow> json option" where
  "integrationId_of d = (case d of JObj ps \<Rightarrow> map_of ps ''integrationId'' | _ \<Rightarrow> None)"

text \<open>
  The own properties of an object, in insertion order. Objects that the caller and the
  catcher share by reference (the contexts) live in a store and are named by their
  index. An object of the store has its own properties and its prototype, which is
  \<^verbatim>\<open>Object.prototype\<close>, \<^verbatim>\<open>null\<close>, or an object or array that was assigned to
  \<^verbatim>\<open>__proto__\<close>.
\<close>

type_synonym obj = "(string \<times> json) list"

datatype prototype = Object_prototype | Null_prototype | Value_prototype json

record js_object =
  props :: obj
  proto :: prototype

type_synonym ref = nat
type_synonym heap = "js_object list"

type_synonym AffectedUser = obj
type_synonym BacktraceFrame = obj

section \<open>Events, requests and settings\<close>

text \<open>
  \<^verbatim>\<open>EventData<NodeJSAddons>\<close>. Every field but the title may be missing from the object:
  the global handler of the catcher builds a payload with a title only.
\<close>

record EventData =
  ed_title :: string
  ed_type :: "string option"
  ed_backtrace :: "BacktraceFrame list option"
  ed_user :: "AffectedUser option"
  ed_context :: "obj option"
  ed_catcherVersion :: "string option"

text \<open>\<^verbatim>\<open>HawkEvent\<close>, the envelope that is serialised into the body of the request.\<close>

record HawkEvent =
  ev_token :: string
  ev_catcherType :: string
  ev_payload :: EventData

text \<open>
  One call of \<^verbatim>\<open>fetch\<close>. The body is \<^verbatim>\<open>JSON.stringify(eventFormatted)\<close>; the
  model keeps the envelope that is serialised.
\<close>

record Request =
  rq_url :: string
  rq_method :: string
  rq_headers :: "(string \<times> string) list"
  rq_body :: HawkEvent

record Response =
  status :: nat

text \<open>How the promise returned by \<^verbatim>\<open>fetch\<close> settles.\<close>

datatype fetch_result = Fulfilled Response | Rejected js_error

text \<open>
  Modelled from the spec: the class \<^verbatim>\<open>EventPayload\<close> of \<^verbatim>\<open>./modules/event\<close> is not
  among the sources. By section 4.2 of the specification composing never fails for an
  error object and yields a title, a type and a backtrace, which is empty when the error
  has no stack. An object of the class is the three values its getters return.
\<close>

record EventPayload =
  getTitle :: string
  getType :: string
  getBacktrace :: "BacktraceFrame list"

text \<open>
  What the catcher runs on, a parameter of every operation:
  \<^item> \<open>base64_utf8 t\<close> is \<^verbatim>\<open>Buffer.from(t, 'base64').toString('utf-8')\<close>, which
    returns a string for every string: the decoding skips what is not base64 and does
    not raise;
  \<^item> \<open>JSON_parse\<close> is \<^verbatim>\<open>JSON.parse\<close>, which raises on a text that is not JSON;
  \<^item> \<open>fetch\<close> is the transport;
  \<^item> \<open>new_EventPayload\<close> is the constructor of \<^verbatim>\<open>EventPayload\<close>.
\<close>

record env =
  base64_utf8 :: "string \<Rightarrow> string"
  JSON_parse :: "string \<Rightarrow> js_error + json"
  fetch :: "Request \<Rightarrow> fetch_result"
  new_EventPayload :: "js_error \<Rightarrow> EventPayload"

text \<open>
  The hook \<^verbatim>\<open>beforeSend\<close> is a function of the caller: it returns a payload or raises.
\<close>

type_synonym hook = "EventData \<Rightarrow> js_error + EventData"

text \<open>\<^verbatim>\<open>HawkNodeJSInitialSettings\<close>; \<open>None\<close> is a property that is not set.\<close>

record HawkNodeJSInitialSettings =
  s_token :: "string option"
  s_collectorEndpoint :: "string option"
  s_context :: "ref option"
  s_beforeSend :: "hook option"
  s_disableGlobalErrorsHandling :: "bool option"

text \<open>The argument of the constructor: \<^verbatim>\<open>HawkNodeJSInitialSettings | string\<close>.\<close>

datatype init_settings =
    TokenString string
  | SettingsObject HawkNodeJSInitialSettings

text \<open>The private fields of the class \<^verbatim>\<open>Catcher\<close>.\<close>

record Catcher =
  c_type :: string
  c_token :: string
  c_collectorEndpoint :: string
  c_context :: "ref option"
  c_beforeSend :: "hook option"

datatype console_call =
    ConsoleLog js_error bool
  | ConsoleError string

text \<open>
  The state outside of a catcher: the store of shared objects, the requests handed to
  \<^verbatim>\<open>fetch\<close> so far, the console, the catcher whose callback is registered with
  \<^verbatim>\<open>setJSExceptionHandler\<close>, and the module variable \<^verbatim>\<open>_instance\<close>.
\<close>

record world =
  heap :: heap
  requests :: "Request list"
  console :: "console_call list"
  globalHandler :: "Catcher option"
  hawk_instance :: "Catcher option"

definition initial_world :: world where
  "initial_world =
     \<lparr>heap = [], requests = [], console = [], globalHandler = None, hawk_instance = None\<rparr>"

section \<open>The class Catcher\<close>

definition MissingTokenError :: js_error where
  "MissingTokenError =
     Error ''Integration Token is missed. You can get it on https://hawk.so at Project Settings.''"

definition InvalidTokenError :: js_error where
  "InvalidTokenError = Error ''Invalid integration token''"

text \<open>\<^verbatim>\<open>Catcher.getVersion\<close>.\<close>

definition getVersion :: string where
  "getVersion = ''1.0.0''"

text \<open>
  \<^verbatim>\<open>Catcher.getIntegrationId\<close>, on the token of the catcher. Reading a property of
  \<^verbatim>\<open>null\<close> raises a TypeError. The declared result is a string, and the method
  returns whatever value passes the test of line 110.
\<close>

definition getIntegrationId :: "env \<Rightarrow> string \<Rightarrow> js_error + json" where
  "getIntegrationId e tok =
     (let decodedIntegrationTokenAsString = base64_utf8 e tok in
      case JSON_parse e decodedIntegrationTokenAsString of
        Inl err \<Rightarrow> Inl err
      | Inr decodedIntegrationToken \<Rightarrow>
          if decodedIntegrationToken = JNull then
            Inl (JsError ''TypeError'' ''Cannot read properties of null'')
          else
            (case integrationId_of decodedIntegrationToken of
               None \<Rightarrow>
                 Inl (Error ''Invalid integration token. There is no integration ID.'')
             | Some integrationId \<Rightarrow>
                 if \<not> truthy integrationId \<or> integrationId = JStr [] then
                   Inl (Error ''Invalid integration token. There is no integration ID.'')
                 else Inr integrationId))"

text \<open>
  \<^verbatim>\<open>Catcher.initGlobalHandlers\<close>: the callback handed to \<^verbatim>\<open>setJSExceptionHandler\<close>
  closes over \<^verbatim>\<open>this\<close>, so the registration is recorded as the catcher itself, and it
  replaces the callback registered before. \<^verbatim>\<open>setJSExceptionHandler\<close> is a function of
  the host; it registers the callback and returns.
\<close>

definition initGlobalHandlers :: "Catcher \<Rightarrow> world \<Rightarrow> world" where
  "initGlobalHandlers this w = w\<lparr>globalHandler := Some this\<rparr>"

text \<open>
  The endpoint of line 48: \<^verbatim>\<open>settings.collectorEndpoint || `https://${integrationId}.k1.hawk.so/`\<close>.
  The operator \<^verbatim>\<open>||\<close> takes its right operand when the left one is undefined or the
  empty string. \<open>i\<close> is the integration id as the template prints it.
\<close>

definition resolveEndpoint :: "string option \<Rightarrow> string \<Rightarrow> string" where
  "resolveEndpoint override i =
     (case override of
        None \<Rightarrow> ''https://'' @ i @ ''.k1.hawk.so/''
      | Some ep \<Rightarrow> if ep = [] then ''https://'' @ i @ ''.k1.hawk.so/'' else ep)"

text \<open>
  The constructor of \<^verbatim>\<open>Catcher\<close>. It returns the new object or the error it throws,
  and the world, which changes only by the registration of the global handler.
\<close>

definition Catcher_constructor ::
  "env \<Rightarrow> init_settings \<Rightarrow> world \<Rightarrow> (js_error + Catcher) \<times> world" where
  "Catcher_constructor e arg w =
     (let settings =
            (case arg of
               TokenString t \<Rightarrow>
                 \<lparr>s_token = Some t, s_collectorEndpoint = None, s_context = None,
                  s_beforeSend = None, s_disableGlobalErrorsHandling = None\<rparr>
             | SettingsObject s \<Rightarrow> s)
      in case s_token settings of
           None \<Rightarrow> (Inl MissingTokenError, w)
         | Some tok \<Rightarrow>
             if tok = [] then (Inl MissingTokenError, w)
             else
               (case getIntegrationId e tok of
                  Inl err \<Rightarrow> (Inl InvalidTokenError, w)
                | Inr integrationId \<Rightarrow>
                    (let this =
                           \<lparr>c_type = ''errors/react-native'',
                            c_token = tok,
                            c_collectorEndpoint =
                              resolveEndpoint (s_collectorEndpoint settings)
                                (ToString integrationId),
                            c_context = s_context settings,
                            c_beforeSend = s_beforeSend settings\<rparr>
                     in if s_disableGlobalErrorsHandling settings = Some True
                        then (Inr this, w)
                        else (Inr this, initGlobalHandlers this w))))"

text \<open>
  The assignment \<^verbatim>\<open>target[k] = v\<close> that \<^verbatim>\<open>Object.assign\<close> performs. An own property
  takes the new value. Otherwise the key is looked up along the prototypes of the
  target. For every key but \<^verbatim>\<open>__proto__\<close> a plain object or an array on the way has at
  most a writable data property, so the target gets a new own property. For
  \<^verbatim>\<open>__proto__\<close> the look-up ends at the accessor of \<^verbatim>\<open>Object.prototype\<close>, unless the
  prototype of the target is \<^verbatim>\<open>null\<close> or an object with an own property of that name;
  the setter of the accessor makes an object, an array or \<^verbatim>\<open>null\<close> the prototype of
  the target, ignores any other value, and adds no property.
\<close>

definition reaches_proto_setter :: "prototype \<Rightarrow> bool" where
  "reaches_proto_setter p =
     (case p of
        Object_prototype \<Rightarrow> True
      | Null_prototype \<Rightarrow> False
      | Value_prototype (JObj ps) \<Rightarrow> map_of ps ''__proto__'' = None
      | Value_prototype v \<Rightarrow> True)"

definition proto_setter :: "json \<Rightarrow> js_object \<Rightarrow> js_object" where
  "proto_setter v ob =
     (case v of
        JNull \<Rightarrow> ob\<lparr>proto := Null_prototype\<rparr>
      | JObj ps \<Rightarrow> ob\<lparr>proto := Value_prototype v\<rparr>
      | JArr xs \<Rightarrow> ob\<lparr>proto := Value_prototype v\<rparr>
      | _ \<Rightarrow> ob)"

definition Set_property :: "string \<Rightarrow> json \<Rightarrow> js_object \<Rightarrow> js_object" where
  "Set_property k v ob =
     (if k = ''__proto__'' \<and> map_of (props ob) k = None \<and> reaches_proto_setter (proto ob)
      then proto_setter v ob
      else ob\<lparr>props := AList.update k v (props ob)\<rparr>)"

text \<open>
  \<^verbatim>\<open>Object.assign(target, source)\<close> on two objects of the store: every own property of
  the source is assigned to the target, in the order of the source; a key the target has
  keeps its place, a new key is appended. Only the target changes. (JavaScript lists
  keys that are array indices first; no statement below depends on the order of such
  keys.) A reference of the program always names an object; the statements about the
  store below say so for the references they are given.
\<close>

definition Object_assign :: "ref \<Rightarrow> ref \<Rightarrow> heap \<Rightarrow> heap" where
  "Object_assign target source h =
     h[target := fold (\<lambda>(k, v). Set_property k v) (props (h ! source)) (h ! target)]"

text \<open>
  \<^verbatim>\<open>Catcher.getContext\<close>: \<^verbatim>\<open>contextMerged\<close> is a new object of the store. The result
  is its reference and the store after the two assignments.
\<close>

definition getContext :: "Catcher \<Rightarrow> ref option \<Rightarrow> heap \<Rightarrow> ref \<times> heap" where
  "getContext this ctx h =
     (let contextMerged = length h;
          h0 = h @ [\<lparr>props = [], proto = Object_prototype\<rparr>];
          h1 = (case c_context this of
                  None \<Rightarrow> h0
                | Some d \<Rightarrow> Object_assign contextMerged d h0);
          h2 = (case ctx of
                  None \<Rightarrow> h1
                | Some c \<Rightarrow> Object_assign contextMerged c h1)
      in (contextMerged, h2))"

text \<open>\<^verbatim>\<open>Catcher.getUser\<close>.\<close>

definition getUser :: "AffectedUser option \<Rightarrow> AffectedUser option" where
  "getUser user = user"

text \<open>
  Lines 142 to 150 of \<^verbatim>\<open>formatAndSend\<close>: the event payload object and the object
  literal. The payload holds the merged context; the model records the own properties
  that object has when it is built, which are what \<^verbatim>\<open>JSON.stringify\<close> writes.
\<close>

definition composePayload ::
  "env \<Rightarrow> Catcher \<Rightarrow> js_error \<Rightarrow> ref option \<Rightarrow> AffectedUser option \<Rightarrow> heap
     \<Rightarrow> EventData \<times> heap" where
  "composePayload e this err ctx user h =
     (let eventPayload = new_EventPayload e err in
      case getContext this ctx h of
        (r, h') \<Rightarrow>
          (\<lparr>ed_title = getTitle eventPayload,
            ed_type = Some (getType eventPayload),
            ed_backtrace = Some (getBacktrace eventPayload),
            ed_user = getUser user,
            ed_context = Some (props (h' ! r)),
            ed_catcherVersion = Some getVersion\<rparr>, h'))"

text \<open>
  \<^verbatim>\<open>Catcher.sendErrorFormatted\<close>. The function is \<^verbatim>\<open>async\<close>: it returns a promise, and
  the result here is the value that promise is fulfilled with (the response, or
  undefined after the \<^verbatim>\<open>catch\<close> callback has run). The effects of the delivery are
  written to the world at the call; when they happen is not modelled. The response is
  not looked at.
\<close>

definition sendErrorFormatted ::
  "env \<Rightarrow> Catcher \<Rightarrow> HawkEvent \<Rightarrow> world \<Rightarrow> Response option \<times> world" where
  "sendErrorFormatted e this eventFormatted w =
     (let rq = \<lparr>rq_url = c_collectorEndpoint this,
                rq_method = ''POST'',
                rq_headers = [(''Content-Type'', ''application/json'')],
                rq_body = eventFormatted\<rparr>;
          w1 = w\<lparr>requests := requests w @ [rq]\<rparr>
      in case fetch e rq of
           Fulfilled response \<Rightarrow> (Some response, w1)
         | Rejected err \<Rightarrow>
             (None,
              w1\<lparr>console := console w1 @
                 [ConsoleError (''[Hawk] Cannot send an event because of '' @ toString err)]\<rparr>))"

text \<open>
  \<^verbatim>\<open>Catcher.formatAndSend\<close>. The call of the hook is not guarded, so an error it raises
  leaves the method; the promise of \<^verbatim>\<open>sendErrorFormatted\<close> is dropped.
\<close>

definition formatAndSend ::
  "env \<Rightarrow> Catcher \<Rightarrow> js_error \<Rightarrow> ref option \<Rightarrow> AffectedUser option \<Rightarrow> world
     \<Rightarrow> (js_error + unit) \<times> world" where
  "formatAndSend e this err ctx user w =
     (case composePayload e this err ctx user (heap w) of
        (payload, h') \<Rightarrow>
          (let w1 = w\<lparr>heap := h'\<rparr> in
           case c_beforeSend this of
             None \<Rightarrow>
               (Inr (),
                snd (sendErrorFormatted e this
                       \<lparr>ev_token = c_token this, ev_catcherType = c_type this,
                        ev_payload = payload\<rparr> w1))
           | Some beforeSend \<Rightarrow>
               (case beforeSend payload of
                  Inl ex \<Rightarrow> (Inl ex, w1)
                | Inr payload' \<Rightarrow>
                    (Inr (),
                     snd (sendErrorFormatted e this
                            \<lparr>ev_token = c_token this, ev_catcherType = c_type this,
                             ev_payload = payload'\<rparr> w1)))))"

text \<open>\<^verbatim>\<open>Catcher.send\<close> and \<^verbatim>\<open>Catcher.test\<close>.\<close>

definition send ::
  "env \<Rightarrow> Catcher \<Rightarrow> js_error \<Rightarrow> ref option \<Rightarrow> AffectedUser option \<Rightarrow> world
     \<Rightarrow> (js_error + unit) \<times> world" where
  "send e this error ctx user w = formatAndSend e this error ctx user w"

definition test :: "env \<Rightarrow> Catcher \<Rightarrow> world \<Rightarrow> (js_error + unit) \<times> world" where
  "test e this w = send e this (Error ''Hawk NodeJS Catcher test message'') None None w"

text \<open>
  The callback that \<^verbatim>\<open>initGlobalHandlers\<close> registers, for the catcher \<open>this\<close> it closes
  over: it logs the error and sends an envelope it builds itself.
\<close>

definition globalHandlerCallback :: "env \<Rightarrow> Catcher \<Rightarrow> js_error \<Rightarrow> bool \<Rightarrow> world \<Rightarrow> world" where
  "globalHandlerCallback e this error isFatal w =
     snd (sendErrorFormatted e this
            \<lparr>ev_token = c_token this,
             ev_catcherType = c_type this,
             ev_payload =
               \<lparr>ed_title = err_name error, ed_type = None, ed_backtrace = None,
                ed_user = None, ed_context = None, ed_catcherVersion = None\<rparr>\<rparr>
            (w\<lparr>console := console w @ [ConsoleLog error isFatal]\<rparr>))"

text \<open>
  The host runtime delivering an uncaught exception: it calls the registered callback,
  if there is one.
\<close>

definition uncaughtException :: "env \<Rightarrow> js_error \<Rightarrow> bool \<Rightarrow> world \<Rightarrow> world" where
  "uncaughtException e error isFatal w =
     (case globalHandler w of
        None \<Rightarrow> w
      | Some this \<Rightarrow> globalHandlerCallback e this error isFatal w)"

section \<open>The wrapper HawkCatcher\<close>

text \<open>
  \<^verbatim>\<open>HawkCatcher.init\<close>: the assignment to \<^verbatim>\<open>_instance\<close> happens only when the
  constructor returns.
\<close>

definition HawkCatcher_init ::
  "env \<Rightarrow> init_settings \<Rightarrow> world \<Rightarrow> (js_error + unit) \<times> world" where
  "HawkCatcher_init e settings w =
     (case Catcher_constructor e settings w of
        (Inl err, w') \<Rightarrow> (Inl err, w')
      | (Inr this, w') \<Rightarrow> (Inr (), w'\<lparr>hawk_instance := Some this\<rparr>))"

text \<open>\<^verbatim>\<open>HawkCatcher.send\<close>.\<close>

definition HawkCatcher_send ::
  "env \<Rightarrow> js_error \<Rightarrow> ref option \<Rightarrow> AffectedUser option \<Rightarrow> world
     \<Rightarrow> (js_error + unit) \<times> world" where
  "HawkCatcher_send e error ctx user w =
     (case hawk_instance w of
        None \<Rightarrow> (Inr (), w)
      | Some this \<Rightarrow> send e this error ctx user w)"

text \<open>
  A caller that calls \<^verbatim>\<open>HawkCatcher.send\<close> once for each element of a list, and carries
  on after a call that raised.
\<close>

fun facade_sends ::
  "env \<Rightarrow> (js_error \<times> ref option \<times> AffectedUser option) list \<Rightarrow> world \<Rightarrow> world" where
  "facade_sends e [] w = w"
| "facade_sends e ((error, ctx, user) # calls) w =
     facade_sends e calls (snd (HawkCatcher_send e error ctx user w))"

section \<open>A test double of the platform\<close>

text \<open>
  A platform for the concrete runs below. Its decoder is a lenient base64 decoder, as the
  one of \<^verbatim>\<open>Buffer\<close> is: it stops at the first \<^verbatim>\<open>=\<close>, skips every character outside
  the alphabet (the URL-safe characters belong to it), and decodes what is left, padded
  or not; the bytes are the characters of the result. Its parser knows a few JSON texts
  and raises a SyntaxError on anything else; its transport rejects every request; the
  title of an event is the message of the error and its type the name.
\<close>

definition sextet :: "char \<Rightarrow> nat option" where
  "sextet c =
     (let n = (of_char c :: nat) in
      if 65 \<le> n \<and> n \<le> 90 then Some (n - 65)
      else if 97 \<le> n \<and> n \<le> 122 then Some (n - 71)
      else if 48 \<le> n \<and> n \<le> 57 then Some (n + 4)
      else if c = CHR ''+'' \<or> c = CHR ''-'' then Some 62
      else if c = CHR ''/'' \<or> c = CHR ''_'' then Some 63
      else None)"

fun bytes_of_sextets :: "nat list \<Rightarrow> nat list" where
  "bytes_of_sextets (a # b # c # d # rest) =
     (a * 4 + b div 16) # ((b mod 16) * 16 + c div 4) # ((c mod 4) * 64 + d)
       # bytes_of_sextets rest"
| "bytes_of_sextets [a, b, c] = [a * 4 + b div 16, (b mod 16) * 16 + c div 4]"
| "bytes_of_sextets [a, b] = [a * 4 + b div 16]"
| "bytes_of_sextets rest = []"

definition lenient_base64 :: "string \<Rightarrow> string" where
  "lenient_base64 t =
     map char_of
       (bytes_of_sextets (List.map_filter sextet (takeWhile (\<lambda>c. c \<noteq> CHR ''='') t)))"

definition stub_JSON_parse :: "string \<Rightarrow> js_error + json" where
  \<open>stub_JSON_parse s =
     (if s = ''{"integrationId":"abc"}'' then Inr (JObj [(''integrationId'', JStr ''abc'')])
      else if s = ''{"integrationId":"xyz"}'' then Inr (JObj [(''integrationId'', JStr ''xyz'')])
      else if s = ''{"secret":"s"}'' then Inr (JObj [(''secret'', JStr ''s'')])
      else if s = ''{"integrationId":""}'' then Inr (JObj [(''integrationId'', JStr [])])
      else if s = ''{"integrationId":0}'' then Inr (JObj [(''integrationId'', JNum 0)])
      else if s = ''{"integrationId":[]}'' then Inr (JObj [(''integrationId'', JArr [])])
      else if s = ''null'' then Inr JNull
      else Inl (JsError ''SyntaxError'' ''Unexpected token''))\<close>

definition failing_fetch :: "Request \<Rightarrow> fetch_result" where
  "failing_fetch rq = Rejected (JsError ''TypeError'' ''Network request failed'')"

text \<open>A transport whose every request is answered with status 500.\<close>

definition server_error_fetch :: "Request \<Rightarrow> fetch_result" where
  "server_error_fetch rq = Fulfilled \<lparr>status = 500\<rparr>"

definition stub_EventPayload :: "js_error \<Rightarrow> EventPayload" where
  "stub_EventPayload err =
     \<lparr>getTitle = err_message err, getType = err_name err, getBacktrace = []\<rparr>"

definition test_env :: env where
  "test_env =
     \<lparr>base64_utf8 = lenient_base64, JSON_parse = stub_JSON_parse, fetch = failing_fetch,
      new_EventPayload = stub_EventPayload\<rparr>"

text \<open>Two hooks: one that removes the user from the payload, one that raises.\<close>

definition redact_user :: hook where
  "redact_user payload = Inr (payload\<lparr>ed_user := None\<rparr>)"

definition raising_hook :: hook where
  "raising_hook payload = Inl (JsError ''TypeError'' ''Cannot read properties of undefined'')"

text \<open>Settings that hold a token and nothing else.\<close>

definition token_only :: "string \<Rightarrow> HawkNodeJSInitialSettings" where
  "token_only t =
     \<lparr>s_token = Some t, s_collectorEndpoint = None, s_context = None,
      s_beforeSend = None, s_disableGlobalErrorsHandling = None\<rparr>"

text \<open>
  The settings of the concrete runs. The tokens are the base64 texts of
  \<^verbatim>\<open>{"integrationId":"abc"}\<close> and of \<^verbatim>\<open>{"integrationId":[]}\<close>.
\<close>

definition settings_empty_override :: HawkNodeJSInitialSettings where
  "settings_empty_override =
     (token_only ''eyJpbnRlZ3JhdGlvbklkIjoiYWJjIn0='')\<lparr>s_collectorEndpoint := Some []\<rparr>"

definition settings_empty_token_override :: HawkNodeJSInitialSettings where
  "settings_empty_token_override =
     (token_only [])\<lparr>s_collectorEndpoint := Some ''https://collector.example/''\<rparr>"

definition settings_array_id_override :: HawkNodeJSInitialSettings where
  "settings_array_id_override =
     (token_only ''eyJpbnRlZ3JhdGlvbklkIjpbXX0='')
       \<lparr>s_collectorEndpoint := Some ''https://collector.example/''\<rparr>"

definition settings_raising_hook :: HawkNodeJSInitialSettings where
  "settings_raising_hook =
     (token_only ''eyJpbnRlZ3JhdGlvbklkIjoiYWJjIn0='')\<lparr>s_beforeSend := Some raising_hook\<rparr>"

text \<open>A catcher without hook and default context, as the constructor builds it.\<close>

definition plain_catcher :: Catcher where
  "plain_catcher =
     \<lparr>c_type = ''errors/react-native'', c_token = ''eyJpbnRlZ3JhdGlvbklkIjoiYWJjIn0='',
      c_collectorEndpoint = ''https://abc.k1.hawk.so/'', c_context = None,
      c_beforeSend = None\<rparr>"

section \<open>Notions of the specification\<close>

text \<open>
  Valid base64 (RFC 4648): characters of the standard alphabet, then at most two
  \<^verbatim>\<open>=\<close>, a multiple of four characters in all.
\<close>

definition standard_base64_char :: "char \<Rightarrow> bool" where
  "standard_base64_char c =
     (let n = (of_char c :: nat) in
      (65 \<le> n \<and> n \<le> 90) \<or> (97 \<le> n \<and> n \<le> 122) \<or> (48 \<le> n \<and> n \<le> 57)
      \<or> c = CHR ''+'' \<or> c = CHR ''/'')"

definition valid_base64 :: "string \<Rightarrow> bool" where
  "valid_base64 t =
     (length t mod 4 = 0
      \<and> list_all standard_base64_char (takeWhile (\<lambda>c. c \<noteq> CHR ''='') t)
      \<and> dropWhile (\<lambda>c. c \<noteq> CHR ''='') t \<in> {[], ''='', ''==''})"

text \<open>
  The JSON value a token stands for: the token decoded and parsed. \<open>None\<close> is a token
  that is not valid JSON after decoding.
\<close>

definition decodes_to :: "env \<Rightarrow> string \<Rightarrow> json option" where
  "decodes_to e tok =
     (case JSON_parse e (base64_utf8 e tok) of Inl err \<Rightarrow> None | Inr d \<Rightarrow> Some d)"

text \<open>
  A parsed value without a true \<^verbatim>\<open>integrationId\<close>: \<^verbatim>\<open>null\<close>, a value that has no such
  property, or one whose \<^verbatim>\<open>integrationId\<close> is \<^verbatim>\<open>null\<close>, \<^verbatim>\<open>false\<close>, \<^verbatim>\<open>0\<close> or the
  empty string.
\<close>

definition no_true_integrationId :: "json \<Rightarrow> bool" where
  "no_true_integrationId d =
     (case integrationId_of d of None \<Rightarrow> True | Some v \<Rightarrow> \<not> truthy v)"

text \<open>
  The hook of the catcher returns on the payload composed for this call (or the catcher
  has no hook).
\<close>

definition hook_returns ::
  "env \<Rightarrow> Catcher \<Rightarrow> js_error \<Rightarrow> ref option \<Rightarrow> AffectedUser option \<Rightarrow> world \<Rightarrow> bool" where
  "hook_returns e this error ctx user w =
     (case c_beforeSend this of
        None \<Rightarrow> True
      | Some beforeSend \<Rightarrow>
          (case beforeSend (fst (composePayload e this error ctx user (heap w))) of
             Inl ex \<Rightarrow> False
           | Inr payload' \<Rightarrow> True))"

section \<open>Properties of the operations\<close>

text \<open>What one delivery adds to the world.\<close>

lemma requests_sendErrorFormatted:
  "requests (snd (sendErrorFormatted e this ev w)) =
     requests w @ [\<lparr>rq_url = c_collectorEndpoint this, rq_method = ''POST'',
                    rq_headers = [(''Content-Type'', ''application/json'')], rq_body = ev\<rparr>]"
  by (simp add: sendErrorFormatted_def Let_def split: fetch_result.split)

lemma console_sendErrorFormatted:
  "console (snd (sendErrorFormatted e this ev w)) =
     console w @
       (case fetch e \<lparr>rq_url = c_collectorEndpoint this, rq_method = ''POST'',
                      rq_headers = [(''Content-Type'', ''application/json'')], rq_body = ev\<rparr> of
          Fulfilled response \<Rightarrow> []
        | Rejected err \<Rightarrow>
            [ConsoleError (''[Hawk] Cannot send an event because of '' @ toString err)])"
  by (simp add: sendErrorFormatted_def Let_def split: fetch_result.split)

lemma rest_sendErrorFormatted:
  "heap (snd (sendErrorFormatted e this ev w)) = heap w"
  "globalHandler (snd (sendErrorFormatted e this ev w)) = globalHandler w"
  "hawk_instance (snd (sendErrorFormatted e this ev w)) = hawk_instance w"
  by (simp_all add: sendErrorFormatted_def Let_def split: fetch_result.split)

text \<open>The empty string counts as no token, in either form of the argument.\<close>

lemma constructor_missing_token:
  "s_token s = None \<or> s_token s = Some [] \<Longrightarrow>
     Catcher_constructor e (SettingsObject s) w = (Inl MissingTokenError, w)"
  "Catcher_constructor e (TokenString []) w = (Inl MissingTokenError, w)"
  by (auto simp add: Catcher_constructor_def)

text \<open>
  What the constructor returns does not depend on the world, and a construction that
  fails leaves the world as it was.
\<close>

lemma constructor_state_free:
  "fst (Catcher_constructor e arg w) = fst (Catcher_constructor e arg w')"
  by (simp add: Catcher_constructor_def Let_def split: option.split sum.split init_settings.split)

lemma constructor_failure_keeps_world:
  "Catcher_constructor e arg w = (Inl err, w') \<Longrightarrow> w' = w"
  by (auto simp add: Catcher_constructor_def Let_def
      split: option.splits sum.splits init_settings.splits if_splits)

text \<open>
  Claim C8. A settings object without a token makes the constructor fail with the
  error for the missing token, nothing else happens, and \<^verbatim>\<open>HawkCatcher.init\<close> passes
  that error to its caller. (A bare string always carries a token, so no token means a
  settings object whose \<^verbatim>\<open>token\<close> is not set.)
\<close>

theorem missing_token_fails:
  assumes "s_token s = None"
  shows "Catcher_constructor e (SettingsObject s) w = (Inl MissingTokenError, w)
       \<and> HawkCatcher_init e (SettingsObject s) w = (Inl MissingTokenError, w)"
  using assms by (simp add: Catcher_constructor_def HawkCatcher_init_def)

theorem missing_token_fails_witness:
  "s_token \<lparr>s_token = None, s_collectorEndpoint = Some ''https://collector.example/'',
            s_context = None, s_beforeSend = None,
            s_disableGlobalErrorsHandling = None\<rparr> = None
   \<and> HawkCatcher_init test_env
       (SettingsObject \<lparr>s_token = None, s_collectorEndpoint = Some ''https://collector.example/'',
            s_context = None, s_beforeSend = None,
            s_disableGlobalErrorsHandling = None\<rparr>) initial_world
     = (Inl (JsError ''Error''
          ''Integration Token is missed. You can get it on https://hawk.so at Project Settings.''),
        initial_world)"
  using missing_token_fails
    [of "\<lparr>s_token = None, s_collectorEndpoint = Some ''https://collector.example/'',
            s_context = None, s_beforeSend = None,
            s_disableGlobalErrorsHandling = None\<rparr>" test_env initial_world]
  by (simp add: MissingTokenError_def Error_def)

text \<open>
  Claim C7. While \<^verbatim>\<open>_instance\<close> is not set, \<^verbatim>\<open>HawkCatcher.send\<close> returns
  normally and leaves the world as it is: no request, no console output.
\<close>

theorem facade_send_before_init:
  assumes "hawk_instance w = None"
  shows "HawkCatcher_send e error ctx user w = (Inr (), w)"
  using assms by (simp add: HawkCatcher_send_def)

theorem facade_send_before_init_witness:
  "hawk_instance initial_world = None
   \<and> HawkCatcher_send test_env (Error ''boom'') None None initial_world = (Inr (), initial_world)"
  using facade_send_before_init [of initial_world test_env "Error ''boom''" None None]
  by (simp add: initial_world_def)

text \<open>\<^verbatim>\<open>getIntegrationId\<close> on valid and on invalid tokens.\<close>

lemma getIntegrationId_valid:
  "decodes_to e tok = Some d \<Longrightarrow> integrationId_of d = Some (JStr i) \<Longrightarrow> i \<noteq> [] \<Longrightarrow>
     getIntegrationId e tok = Inr (JStr i)"
  by (auto simp add: decodes_to_def getIntegrationId_def integrationId_of_def
      split: sum.splits)

lemma getIntegrationId_invalid:
  "decodes_to e tok = None \<or> (\<exists>d. decodes_to e tok = Some d \<and> no_true_integrationId d) \<Longrightarrow>
     \<exists>err. getIntegrationId e tok = Inl err"
  by (auto simp add: decodes_to_def getIntegrationId_def no_true_integrationId_def
      split: sum.splits option.splits)

lemma constructor_invalid_token:
  assumes "tok \<noteq> []" and "getIntegrationId e tok = Inl err"
  shows "Catcher_constructor e (TokenString tok) w = (Inl InvalidTokenError, w)"
    and "s_token s = Some tok \<Longrightarrow>
           Catcher_constructor e (SettingsObject s) w = (Inl InvalidTokenError, w)"
  using assms by (simp_all add: Catcher_constructor_def)

lemma init_failure:
  "Catcher_constructor e arg w = (Inl err, w) \<Longrightarrow> HawkCatcher_init e arg w = (Inl err, w)"
  by (simp add: HawkCatcher_init_def)

text \<open>What the decoder of the test double makes of the tokens of the concrete runs.\<close>

lemma decoded_abc:
  \<open>lenient_base64 ''eyJpbnRlZ3JhdGlvbklkIjoiYWJjIn0='' = ''{"integrationId":"abc"}''\<close>
  by code_simp

lemma decoded_abc_unpadded:
  \<open>lenient_base64 ''eyJpbnRlZ3JhdGlvbklkIjoiYWJjIn0'' = ''{"integrationId":"abc"}''\<close>
  by code_simp

lemma decoded_xyz:
  \<open>lenient_base64 ''eyJpbnRlZ3JhdGlvbklkIjoieHl6In0='' = ''{"integrationId":"xyz"}''\<close>
  by code_simp

lemma decoded_secret:
  \<open>lenient_base64 ''eyJzZWNyZXQiOiJzIn0='' = ''{"secret":"s"}''\<close>
  by code_simp

lemma decoded_empty_id:
  \<open>lenient_base64 ''eyJpbnRlZ3JhdGlvbklkIjoiIn0='' = ''{"integrationId":""}''\<close>
  by code_simp

lemma decoded_zero_id:
  \<open>lenient_base64 ''eyJpbnRlZ3JhdGlvbklkIjowfQ=='' = ''{"integrationId":0}''\<close>
  by code_simp

lemma decoded_array_id:
  \<open>lenient_base64 ''eyJpbnRlZ3JhdGlvbklkIjpbXX0='' = ''{"integrationId":[]}''\<close>
  by code_simp

lemma decoded_null:
  "lenient_base64 ''bnVsbA=='' = ''null''"
  by code_simp

lemma decoded_not_json:
  "lenient_base64 ''bm90IGpzb24='' = ''not json''"
  by code_simp

lemma decoded_empty:
  "lenient_base64 [] = []"
  by code_simp

text \<open>The equations that evaluate the concrete runs.\<close>

lemmas double_defs =
  test_env_def stub_JSON_parse_def failing_fetch_def
  server_error_fetch_def stub_EventPayload_def
  redact_user_def raising_hook_def token_only_def initial_world_def plain_catcher_def
  settings_empty_override_def settings_empty_token_override_def settings_raising_hook_def
  settings_array_id_override_def
  decoded_abc decoded_abc_unpadded decoded_xyz decoded_secret decoded_empty_id
  decoded_zero_id decoded_array_id decoded_null decoded_not_json decoded_empty

lemmas catcher_defs =
  Catcher_constructor_def getIntegrationId_def integrationId_of_def resolveEndpoint_def
  initGlobalHandlers_def
  HawkCatcher_init_def HawkCatcher_send_def send_def test_def formatAndSend_def
  composePayload_def getContext_def Object_assign_def Set_property_def
  reaches_proto_setter_def proto_setter_def getUser_def getVersion_def
  sendErrorFormatted_def globalHandlerCallback_def uncaughtException_def
  MissingTokenError_def InvalidTokenError_def Error_def toString_def Let_def

text \<open>
  Against claim C2 as it is written: the settings supply the empty string as
  \<^verbatim>\<open>collectorEndpoint\<close>, with a valid token, and the catcher resolves the endpoint
  derived from the token, not the one supplied.
\<close>

theorem empty_override_counterexample:
  "s_collectorEndpoint settings_empty_override = Some []
   \<and> fst (Catcher_constructor test_env (SettingsObject settings_empty_override) initial_world)
     = Inr \<lparr>c_type = ''errors/react-native'', c_token = ''eyJpbnRlZ3JhdGlvbklkIjoiYWJjIn0='',
            c_collectorEndpoint = ''https://abc.k1.hawk.so/'', c_context = None,
            c_beforeSend = None\<rparr>"
  by (simp add: double_defs catcher_defs)

text \<open>
  Claim C2 (amended). For a valid token, one that decodes to JSON with a non-empty
  string \<open>i\<close> as \<^verbatim>\<open>integrationId\<close>, the constructor succeeds and the endpoint is the
  override when the settings supply a non-empty one, and \<^verbatim>\<open>https://i.k1.hawk.so/\<close>
  otherwise: with a bare token string, with no override, and with the empty string as
  override. (A valid token is the base64 text of a JSON text, so it is not the empty
  string.)
\<close>

theorem endpoint_resolution:
  assumes "tok \<noteq> []" and "decodes_to e tok = Some d"
    and "integrationId_of d = Some (JStr i)" and "i \<noteq> []"
  shows "map_sum id c_collectorEndpoint (fst (Catcher_constructor e (TokenString tok) w))
           = Inr (''https://'' @ i @ ''.k1.hawk.so/'')
       \<and> (s_token s = Some tok \<longrightarrow>
            map_sum id c_collectorEndpoint (fst (Catcher_constructor e (SettingsObject s) w))
              = Inr (case s_collectorEndpoint s of
                       None \<Rightarrow> ''https://'' @ i @ ''.k1.hawk.so/''
                     | Some ep \<Rightarrow>
                         if ep = [] then ''https://'' @ i @ ''.k1.hawk.so/'' else ep))"
  using assms(1) getIntegrationId_valid [OF assms(2,3,4)]
  by (simp add: Catcher_constructor_def resolveEndpoint_def Let_def)

theorem endpoint_resolution_witness:
  "''eyJpbnRlZ3JhdGlvbklkIjoieHl6In0='' \<noteq> []
   \<and> decodes_to test_env ''eyJpbnRlZ3JhdGlvbklkIjoieHl6In0=''
     = Some (JObj [(''integrationId'', JStr ''xyz'')])
   \<and> integrationId_of (JObj [(''integrationId'', JStr ''xyz'')]) = Some (JStr ''xyz'')
   \<and> ''xyz'' \<noteq> []
   \<and> map_sum id c_collectorEndpoint
       (fst (Catcher_constructor test_env (TokenString ''eyJpbnRlZ3JhdGlvbklkIjoieHl6In0='')
          initial_world))
     = Inr ''https://xyz.k1.hawk.so/''
   \<and> map_sum id c_collectorEndpoint
       (fst (Catcher_constructor test_env
          (SettingsObject ((token_only ''eyJpbnRlZ3JhdGlvbklkIjoieHl6In0='')
             \<lparr>s_collectorEndpoint := Some ''https://collector.example/''\<rparr>))
          initial_world))
     = Inr ''https://collector.example/''"
proof -
  have t: "''eyJpbnRlZ3JhdGlvbklkIjoieHl6In0='' \<noteq> []"
    by simp
  have d: "decodes_to test_env ''eyJpbnRlZ3JhdGlvbklkIjoieHl6In0=''
             = Some (JObj [(''integrationId'', JStr ''xyz'')])"
    by (simp add: decodes_to_def double_defs)
  have i: "integrationId_of (JObj [(''integrationId'', JStr ''xyz'')]) = Some (JStr ''xyz'')"
    by (simp add: integrationId_of_def)
  have n: "''xyz'' \<noteq> []"
    by simp
  show ?thesis
    using d i endpoint_resolution
      [OF t d i n, of initial_world
          "(token_only ''eyJpbnRlZ3JhdGlvbklkIjoieHl6In0='')
             \<lparr>s_collectorEndpoint := Some ''https://collector.example/''\<rparr>"]
    by (simp add: token_only_def)
qed

text \<open>
  Against claim C3 as it is written, three runs. The empty string is a token that is not
  valid JSON after decoding, and the constructor fails on it with the error for a missing
  token. The token of \<open>abc\<close> without its padding is not valid base64, the decoder
  decodes it all the same, and the constructor succeeds. The token of
  \<^verbatim>\<open>{"integrationId":[]}\<close> has no non-empty string as \<^verbatim>\<open>integrationId\<close>, the empty
  array passes the test of line 110, and the constructor succeeds with the endpoint the
  template makes of it.
\<close>

theorem invalid_tokens_counterexample:
  "decodes_to test_env [] = None
   \<and> Catcher_constructor test_env (TokenString []) initial_world
     = (Inl (JsError ''Error''
          ''Integration Token is missed. You can get it on https://hawk.so at Project Settings.''),
        initial_world)
   \<and> InvalidTokenError = JsError ''Error'' ''Invalid integration token''
   \<and> \<not> valid_base64 ''eyJpbnRlZ3JhdGlvbklkIjoiYWJjIn0''
   \<and> fst (Catcher_constructor test_env (TokenString ''eyJpbnRlZ3JhdGlvbklkIjoiYWJjIn0'')
          initial_world)
     = Inr \<lparr>c_type = ''errors/react-native'', c_token = ''eyJpbnRlZ3JhdGlvbklkIjoiYWJjIn0'',
            c_collectorEndpoint = ''https://abc.k1.hawk.so/'', c_context = None,
            c_beforeSend = None\<rparr>
   \<and> decodes_to test_env ''eyJpbnRlZ3JhdGlvbklkIjpbXX0=''
     = Some (JObj [(''integrationId'', JArr [])])
   \<and> fst (Catcher_constructor test_env (TokenString ''eyJpbnRlZ3JhdGlvbklkIjpbXX0='')
          initial_world)
     = Inr \<lparr>c_type = ''errors/react-native'', c_token = ''eyJpbnRlZ3JhdGlvbklkIjpbXX0='',
            c_collectorEndpoint = ''https://.k1.hawk.so/'', c_context = None,
            c_beforeSend = None\<rparr>"
  by (simp add: decodes_to_def valid_base64_def double_defs catcher_defs)

text \<open>
  Claim C3 (amended). For every token but the empty string whose decoded text is not
  valid JSON, or whose parsed value is \<^verbatim>\<open>null\<close> or has an \<^verbatim>\<open>integrationId\<close> that is
  absent, \<^verbatim>\<open>null\<close>, \<^verbatim>\<open>false\<close>, \<^verbatim>\<open>0\<close> or the empty string, given as a bare string or
  in a settings object, the constructor fails with the error whose message is
  \<^verbatim>\<open>Invalid integration token\<close> whatever the decoding raised, \<^verbatim>\<open>HawkCatcher.init\<close>
  fails with it too, and the world is unchanged: no catcher, so no endpoint, and no
  handler registered.
\<close>

theorem invalid_token_fails:
  assumes "tok \<noteq> []"
    and "arg = TokenString tok \<or> (\<exists>s. arg = SettingsObject s \<and> s_token s = Some tok)"
    and "decodes_to e tok = None \<or> (\<exists>d. decodes_to e tok = Some d \<and> no_true_integrationId d)"
  shows "Catcher_constructor e arg w = (Inl InvalidTokenError, w)
       \<and> HawkCatcher_init e arg w = (Inl InvalidTokenError, w)
       \<and> err_message InvalidTokenError = ''Invalid integration token''"
proof -
  from assms(3) obtain err where "getIntegrationId e tok = Inl err"
    using getIntegrationId_invalid by blast
  with assms(1,2) have "Catcher_constructor e arg w = (Inl InvalidTokenError, w)"
    using constructor_invalid_token by blast
  then show ?thesis
    by (simp add: init_failure InvalidTokenError_def Error_def)
qed

theorem invalid_token_fails_witness:
  "HawkCatcher_init test_env (TokenString ''bm90IGpzb24='') initial_world
     = (Inl (JsError ''Error'' ''Invalid integration token''), initial_world)
   \<and> HawkCatcher_init test_env (SettingsObject (token_only ''eyJzZWNyZXQiOiJzIn0='')) initial_world
     = (Inl (JsError ''Error'' ''Invalid integration token''), initial_world)
   \<and> HawkCatcher_init test_env (TokenString ''eyJpbnRlZ3JhdGlvbklkIjoiIn0='') initial_world
     = (Inl (JsError ''Error'' ''Invalid integration token''), initial_world)
   \<and> HawkCatcher_init test_env (TokenString ''eyJpbnRlZ3JhdGlvbklkIjowfQ=='') initial_world
     = (Inl (JsError ''Error'' ''Invalid integration token''), initial_world)
   \<and> HawkCatcher_init test_env (TokenString ''bnVsbA=='') initial_world
     = (Inl (JsError ''Error'' ''Invalid integration token''), initial_world)"
proof -
  have b: "decodes_to test_env ''bm90IGpzb24='' = None"
    by (simp add: decodes_to_def double_defs)
  have c: "decodes_to test_env ''eyJzZWNyZXQiOiJzIn0='' = Some (JObj [(''secret'', JStr ''s'')])"
    by (simp add: decodes_to_def double_defs)
  have d: "decodes_to test_env ''eyJpbnRlZ3JhdGlvbklkIjoiIn0=''
             = Some (JObj [(''integrationId'', JStr [])])"
    by (simp add: decodes_to_def double_defs)
  have z: "decodes_to test_env ''eyJpbnRlZ3JhdGlvbklkIjowfQ==''
             = Some (JObj [(''integrationId'', JNum 0)])"
    by (simp add: decodes_to_def double_defs)
  have n: "decodes_to test_env ''bnVsbA=='' = Some JNull"
    by (simp add: decodes_to_def double_defs)
  have l: "no_true_integrationId (JObj [(''secret'', JStr ''s'')])"
    "no_true_integrationId (JObj [(''integrationId'', JStr [])])"
    "no_true_integrationId (JObj [(''integrationId'', JNum 0)])"
    "no_true_integrationId JNull"
    by (simp_all add: no_true_integrationId_def integrationId_of_def)
  show ?thesis
    using
      invalid_token_fails [of "''bm90IGpzb24=''" "TokenString ''bm90IGpzb24=''" test_env
        initial_world]
      invalid_token_fails [of "''eyJzZWNyZXQiOiJzIn0=''"
        "SettingsObject (token_only ''eyJzZWNyZXQiOiJzIn0='')" test_env initial_world]
      invalid_token_fails [of "''eyJpbnRlZ3JhdGlvbklkIjoiIn0=''"
        "TokenString ''eyJpbnRlZ3JhdGlvbklkIjoiIn0=''" test_env initial_world]
      invalid_token_fails [of "''eyJpbnRlZ3JhdGlvbklkIjowfQ==''"
        "TokenString ''eyJpbnRlZ3JhdGlvbklkIjowfQ==''" test_env initial_world]
      invalid_token_fails [of "''bnVsbA==''" "TokenString ''bnVsbA==''" test_env initial_world]
      b c d z n l
    by (simp add: token_only_def InvalidTokenError_def Error_def)
qed

text \<open>
  Against claim C10 as it is written, two runs with an override in the settings. With
  the empty string as token, which decodes to nothing that parses, the constructor fails
  before it decodes the token, with the error for a missing token. With the token of
  \<^verbatim>\<open>{"integrationId":[]}\<close>, which has no non-empty string as \<^verbatim>\<open>integrationId\<close>, the
  constructor succeeds with the override as endpoint.
\<close>

theorem invalid_token_with_override_counterexample:
  "s_collectorEndpoint settings_empty_token_override = Some ''https://collector.example/''
   \<and> s_token settings_empty_token_override = Some []
   \<and> decodes_to test_env [] = None
   \<and> Catcher_constructor test_env (SettingsObject settings_empty_token_override) initial_world
     = (Inl MissingTokenError, initial_world)
   \<and> MissingTokenError \<noteq> InvalidTokenError
   \<and> s_collectorEndpoint settings_array_id_override = Some ''https://collector.example/''
   \<and> s_token settings_array_id_override = Some ''eyJpbnRlZ3JhdGlvbklkIjpbXX0=''
   \<and> decodes_to test_env ''eyJpbnRlZ3JhdGlvbklkIjpbXX0=''
     = Some (JObj [(''integrationId'', JArr [])])
   \<and> fst (Catcher_constructor test_env (SettingsObject settings_array_id_override)
          initial_world)
     = Inr \<lparr>c_type = ''errors/react-native'', c_token = ''eyJpbnRlZ3JhdGlvbklkIjpbXX0='',
            c_collectorEndpoint = ''https://collector.example/'', c_context = None,
            c_beforeSend = None\<rparr>"
  by (simp add: decodes_to_def double_defs catcher_defs)

text \<open>
  Claim C10 (amended). An override does not bypass the validation of the token: for
  settings with a \<^verbatim>\<open>collectorEndpoint\<close> and a token other than the empty string whose
  decoded text is not valid JSON, or whose parsed value is \<^verbatim>\<open>null\<close> or has an
  \<^verbatim>\<open>integrationId\<close> that is absent, \<^verbatim>\<open>null\<close>, \<^verbatim>\<open>false\<close>, \<^verbatim>\<open>0\<close> or the empty string,
  the constructor fails with the error for an invalid token, and so does
  \<^verbatim>\<open>HawkCatcher.init\<close>.
\<close>

theorem override_does_not_bypass_validation:
  assumes "s_collectorEndpoint s = Some ep" and "s_token s = Some tok" and "tok \<noteq> []"
    and "decodes_to e tok = None \<or> (\<exists>d. decodes_to e tok = Some d \<and> no_true_integrationId d)"
  shows "Catcher_constructor e (SettingsObject s) w = (Inl InvalidTokenError, w)
       \<and> HawkCatcher_init e (SettingsObject s) w = (Inl InvalidTokenError, w)"
proof -
  from assms(4) obtain err where "getIntegrationId e tok = Inl err"
    using getIntegrationId_invalid by blast
  with assms(2,3) have "Catcher_constructor e (SettingsObject s) w = (Inl InvalidTokenError, w)"
    using constructor_invalid_token(2) by blast
  then show ?thesis
    by (simp add: init_failure)
qed

theorem override_does_not_bypass_validation_witness:
  "decodes_to test_env ''bm90IGpzb24='' = None
   \<and> Catcher_constructor test_env
       (SettingsObject ((token_only ''bm90IGpzb24='')
          \<lparr>s_collectorEndpoint := Some ''https://collector.example/''\<rparr>)) initial_world
     = (Inl (JsError ''Error'' ''Invalid integration token''), initial_world)
   \<and> decodes_to test_env ''eyJzZWNyZXQiOiJzIn0='' = Some (JObj [(''secret'', JStr ''s'')])
   \<and> Catcher_constructor test_env
       (SettingsObject ((token_only ''eyJzZWNyZXQiOiJzIn0='')
          \<lparr>s_collectorEndpoint := Some ''https://collector.example/''\<rparr>)) initial_world
     = (Inl (JsError ''Error'' ''Invalid integration token''), initial_world)"
proof -
  have b: "decodes_to test_env ''bm90IGpzb24='' = None"
    by (simp add: decodes_to_def double_defs)
  have c: "decodes_to test_env ''eyJzZWNyZXQiOiJzIn0='' = Some (JObj [(''secret'', JStr ''s'')])"
    by (simp add: decodes_to_def double_defs)
  have l: "no_true_integrationId (JObj [(''secret'', JStr ''s'')])"
    by (simp add: no_true_integrationId_def integrationId_of_def)
  show ?thesis
    using b c l
      override_does_not_bypass_validation
        [of "(token_only ''bm90IGpzb24='')\<lparr>s_collectorEndpoint := Some ''https://collector.example/''\<rparr>"
            "''https://collector.example/''" "''bm90IGpzb24=''" test_env initial_world]
      override_does_not_bypass_validation
        [of "(token_only ''eyJzZWNyZXQiOiJzIn0='')\<lparr>s_collectorEndpoint := Some ''https://collector.example/''\<rparr>"
            "''https://collector.example/''" "''eyJzZWNyZXQiOiJzIn0=''" test_env initial_world]
    by (simp add: token_only_def InvalidTokenError_def Error_def)
qed

text \<open>
  Claim C6. When the host delivers an uncaught error to the callback a catcher has
  registered, whatever \<open>isFatal\<close> is, one request goes to the endpoint of that catcher,
  and the payload of its envelope has the name of the error as title and no type,
  backtrace, user, context or catcher version.
\<close>

theorem global_handler_sends_title_only:
  assumes "globalHandler w = Some this"
  shows "requests (uncaughtException e error isFatal w) =
     requests w @
       [\<lparr>rq_url = c_collectorEndpoint this, rq_method = ''POST'',
         rq_headers = [(''Content-Type'', ''application/json'')],
         rq_body =
           \<lparr>ev_token = c_token this, ev_catcherType = c_type this,
            ev_payload =
              \<lparr>ed_title = err_name error, ed_type = None, ed_backtrace = None,
               ed_user = None, ed_context = None, ed_catcherVersion = None\<rparr>\<rparr>\<rparr>]"
  using assms
  by (simp add: uncaughtException_def globalHandlerCallback_def requests_sendErrorFormatted)

theorem global_handler_sends_title_only_witness:
  "globalHandler (snd (Catcher_constructor test_env
      (TokenString ''eyJpbnRlZ3JhdGlvbklkIjoiYWJjIn0='') initial_world))
     = Some \<lparr>c_type = ''errors/react-native'', c_token = ''eyJpbnRlZ3JhdGlvbklkIjoiYWJjIn0='',
             c_collectorEndpoint = ''https://abc.k1.hawk.so/'', c_context = None,
             c_beforeSend = None\<rparr>
   \<and> requests (uncaughtException test_env (JsError ''RangeError'' ''Invalid array length'') True
       (snd (Catcher_constructor test_env
          (TokenString ''eyJpbnRlZ3JhdGlvbklkIjoiYWJjIn0='') initial_world)))
     = [\<lparr>rq_url = ''https://abc.k1.hawk.so/'', rq_method = ''POST'',
         rq_headers = [(''Content-Type'', ''application/json'')],
         rq_body =
           \<lparr>ev_token = ''eyJpbnRlZ3JhdGlvbklkIjoiYWJjIn0='',
            ev_catcherType = ''errors/react-native'',
            ev_payload =
              \<lparr>ed_title = ''RangeError'', ed_type = None, ed_backtrace = None,
               ed_user = None, ed_context = None, ed_catcherVersion = None\<rparr>\<rparr>\<rparr>]"
proof -
  have g: "globalHandler (snd (Catcher_constructor test_env
      (TokenString ''eyJpbnRlZ3JhdGlvbklkIjoiYWJjIn0='') initial_world))
     = Some \<lparr>c_type = ''errors/react-native'', c_token = ''eyJpbnRlZ3JhdGlvbklkIjoiYWJjIn0='',
             c_collectorEndpoint = ''https://abc.k1.hawk.so/'', c_context = None,
             c_beforeSend = None\<rparr>"
    by (simp add: double_defs catcher_defs)
  have r: "requests (snd (Catcher_constructor test_env
      (TokenString ''eyJpbnRlZ3JhdGlvbklkIjoiYWJjIn0='') initial_world)) = []"
    by (simp add: double_defs catcher_defs)
  show ?thesis
    using g r global_handler_sends_title_only [OF g, of test_env
        "JsError ''RangeError'' ''Invalid array length''" True]
    by simp
qed

text \<open>What \<^verbatim>\<open>send\<close> returns and what it adds to the world.\<close>

lemma send_requests:
  "requests (snd (send e this error ctx user w)) =
     requests w @
       (case c_beforeSend this of
          None \<Rightarrow>
            [\<lparr>rq_url = c_collectorEndpoint this, rq_method = ''POST'',
              rq_headers = [(''Content-Type'', ''application/json'')],
              rq_body =
                \<lparr>ev_token = c_token this, ev_catcherType = c_type this,
                 ev_payload = fst (composePayload e this error ctx user (heap w))\<rparr>\<rparr>]
        | Some beforeSend \<Rightarrow>
            (case beforeSend (fst (composePayload e this error ctx user (heap w))) of
               Inl ex \<Rightarrow> []
             | Inr payload' \<Rightarrow>
                 [\<lparr>rq_url = c_collectorEndpoint this, rq_method = ''POST'',
                   rq_headers = [(''Content-Type'', ''application/json'')],
                   rq_body =
                     \<lparr>ev_token = c_token this, ev_catcherType = c_type this,
                      ev_payload = payload'\<rparr>\<rparr>]))"
  by (simp add: send_def formatAndSend_def Let_def requests_sendErrorFormatted
      split: prod.split option.split sum.split)

lemma send_instance:
  "hawk_instance (snd (send e this error ctx user w)) = hawk_instance w"
  by (simp add: send_def formatAndSend_def Let_def rest_sendErrorFormatted
      split: prod.split option.split sum.split)

lemma send_result:
  "fst (send e this error ctx user w) =
     (case c_beforeSend this of
        None \<Rightarrow> Inr ()
      | Some beforeSend \<Rightarrow>
          (case beforeSend (fst (composePayload e this error ctx user (heap w))) of
             Inl ex \<Rightarrow> Inl ex
           | Inr payload' \<Rightarrow> Inr ()))"
  by (simp add: send_def formatAndSend_def Let_def split: prod.split option.split sum.split)

lemma send_console:
  "console (snd (send e this error ctx user w)) =
     console w @
       (case c_beforeSend this of
          None \<Rightarrow>
            (case fetch e
                \<lparr>rq_url = c_collectorEndpoint this, rq_method = ''POST'',
                 rq_headers = [(''Content-Type'', ''application/json'')],
                 rq_body =
                   \<lparr>ev_token = c_token this, ev_catcherType = c_type this,
                    ev_payload = fst (composePayload e this error ctx user (heap w))\<rparr>\<rparr> of
               Fulfilled response \<Rightarrow> []
             | Rejected err \<Rightarrow>
                 [ConsoleError (''[Hawk] Cannot send an event because of '' @ toString err)])
        | Some beforeSend \<Rightarrow>
            (case beforeSend (fst (composePayload e this error ctx user (heap w))) of
               Inl ex \<Rightarrow> []
             | Inr payload' \<Rightarrow>
                 (case fetch e
                     \<lparr>rq_url = c_collectorEndpoint this, rq_method = ''POST'',
                      rq_headers = [(''Content-Type'', ''application/json'')],
                      rq_body =
                        \<lparr>ev_token = c_token this, ev_catcherType = c_type this,
                         ev_payload = payload'\<rparr>\<rparr> of
                    Fulfilled response \<Rightarrow> []
                  | Rejected err \<Rightarrow>
                      [ConsoleError
                         (''[Hawk] Cannot send an event because of '' @ toString err)])))"
  by (simp add: send_def formatAndSend_def Let_def console_sendErrorFormatted
      split: prod.split option.split sum.split)

text \<open>
  Claim C5. With \<open>payload\<close> the payload that \<^verbatim>\<open>formatAndSend\<close> composes: when the
  catcher has no hook, the envelope handed to the transport holds \<open>payload\<close> itself;
  when it has a hook and the hook returns \<open>payload'\<close>, the envelope holds \<open>payload'\<close>.
\<close>

theorem hook_result_is_sent:
  assumes "payload = fst (composePayload e this error ctx user (heap w))"
  shows "(c_beforeSend this = None \<longrightarrow>
            requests (snd (send e this error ctx user w)) =
              requests w @
                [\<lparr>rq_url = c_collectorEndpoint this, rq_method = ''POST'',
                  rq_headers = [(''Content-Type'', ''application/json'')],
                  rq_body =
                    \<lparr>ev_token = c_token this, ev_catcherType = c_type this,
                     ev_payload = payload\<rparr>\<rparr>])
       \<and> (\<forall>beforeSend payload'.
            c_beforeSend this = Some beforeSend \<and> beforeSend payload = Inr payload' \<longrightarrow>
            requests (snd (send e this error ctx user w)) =
              requests w @
                [\<lparr>rq_url = c_collectorEndpoint this, rq_method = ''POST'',
                  rq_headers = [(''Content-Type'', ''application/json'')],
                  rq_body =
                    \<lparr>ev_token = c_token this, ev_catcherType = c_type this,
                     ev_payload = payload'\<rparr>\<rparr>])"
  using assms by (simp add: send_requests)

theorem hook_result_is_sent_witness:
  "requests (snd (send test_env
      \<lparr>c_type = ''errors/react-native'', c_token = ''eyJpbnRlZ3JhdGlvbklkIjoiYWJjIn0='',
       c_collectorEndpoint = ''https://abc.k1.hawk.so/'', c_context = None,
       c_beforeSend = Some redact_user\<rparr>
      (Error ''boom'') None (Some [(''id'', JStr ''u1'')]) initial_world))
   = [\<lparr>rq_url = ''https://abc.k1.hawk.so/'', rq_method = ''POST'',
       rq_headers = [(''Content-Type'', ''application/json'')],
       rq_body =
         \<lparr>ev_token = ''eyJpbnRlZ3JhdGlvbklkIjoiYWJjIn0='',
          ev_catcherType = ''errors/react-native'',
          ev_payload =
            \<lparr>ed_title = ''boom'', ed_type = Some ''Error'', ed_backtrace = Some [],
             ed_user = None, ed_context = Some [], ed_catcherVersion = Some ''1.0.0''\<rparr>\<rparr>\<rparr>]
   \<and> ed_user (fst (composePayload test_env
        \<lparr>c_type = ''errors/react-native'', c_token = ''eyJpbnRlZ3JhdGlvbklkIjoiYWJjIn0='',
         c_collectorEndpoint = ''https://abc.k1.hawk.so/'', c_context = None,
         c_beforeSend = Some redact_user\<rparr>
        (Error ''boom'') None (Some [(''id'', JStr ''u1'')]) (heap initial_world)))
     = Some [(''id'', JStr ''u1'')]"
proof -
  let ?c = "\<lparr>c_type = ''errors/react-native'', c_token = ''eyJpbnRlZ3JhdGlvbklkIjoiYWJjIn0='',
       c_collectorEndpoint = ''https://abc.k1.hawk.so/'', c_context = None,
       c_beforeSend = Some redact_user\<rparr>"
  let ?p = "\<lparr>ed_title = ''boom'', ed_type = Some ''Error'', ed_backtrace = Some [],
             ed_user = Some [(''id'', JStr ''u1'')], ed_context = Some [],
             ed_catcherVersion = Some ''1.0.0''\<rparr>"
  have p: "?p = fst (composePayload test_env ?c (Error ''boom'') None
                  (Some [(''id'', JStr ''u1'')]) (heap initial_world))"
    by (simp add: double_defs catcher_defs)
  have r: "requests initial_world = []"
    by (simp add: initial_world_def)
  show ?thesis
    using hook_result_is_sent [OF p] r p [symmetric]
    by (simp add: redact_user_def)
qed

text \<open>
  Against claim C1 as it is written, two runs. On a catcher constructed with a hook that
  raises, the call of \<^verbatim>\<open>send\<close> ends with the error of the hook. On a catcher without
  hook whose request the collector answers with status 500, the delivery is rejected and
  nothing is written to the console.
\<close>

theorem raising_hook_counterexample:
  "fst (Catcher_constructor test_env (SettingsObject settings_raising_hook) initial_world)
     = Inr \<lparr>c_type = ''errors/react-native'', c_token = ''eyJpbnRlZ3JhdGlvbklkIjoiYWJjIn0='',
            c_collectorEndpoint = ''https://abc.k1.hawk.so/'', c_context = None,
            c_beforeSend = Some raising_hook\<rparr>
   \<and> fst (send test_env
        \<lparr>c_type = ''errors/react-native'', c_token = ''eyJpbnRlZ3JhdGlvbklkIjoiYWJjIn0='',
         c_collectorEndpoint = ''https://abc.k1.hawk.so/'', c_context = None,
         c_beforeSend = Some raising_hook\<rparr>
        (Error ''boom'') None None
        (snd (Catcher_constructor test_env (SettingsObject settings_raising_hook) initial_world)))
     = Inl (JsError ''TypeError'' ''Cannot read properties of undefined'')
   \<and> fst (Catcher_constructor (test_env\<lparr>fetch := server_error_fetch\<rparr>)
          (TokenString ''eyJpbnRlZ3JhdGlvbklkIjoiYWJjIn0='') initial_world)
     = Inr plain_catcher
   \<and> map (fetch (test_env\<lparr>fetch := server_error_fetch\<rparr>))
        (requests (snd (send (test_env\<lparr>fetch := server_error_fetch\<rparr>) plain_catcher
           (Error ''boom'') None None initial_world)))
     = [Fulfilled \<lparr>status = 500\<rparr>]
   \<and> console (snd (send (test_env\<lparr>fetch := server_error_fetch\<rparr>) plain_catcher
        (Error ''boom'') None None initial_world))
     = []"
  by (simp add: double_defs catcher_defs)

text \<open>
  Claim C1 (amended). On a catcher that has no hook, or whose hook returns on the
  composed payload, a call of \<^verbatim>\<open>send\<close> returns normally whatever the transport does.
  It hands one request to \<^verbatim>\<open>fetch\<close>; when \<^verbatim>\<open>fetch\<close> rejects, the error is caught and
  written to the console, and when a response arrives, whatever its status, nothing is
  written. The same holds for \<^verbatim>\<open>test\<close>, on the payload composed for its fixed error.
  When the hook raises on the composed payload, \<^verbatim>\<open>send\<close> ends with that error.
\<close>

theorem send_never_raises_from_transport:
  "(hook_returns e this error ctx user w \<longrightarrow>
      fst (send e this error ctx user w) = Inr ()
      \<and> (\<exists>rq. requests (snd (send e this error ctx user w)) = requests w @ [rq]
           \<and> console (snd (send e this error ctx user w)) =
               console w @
                 (case fetch e rq of
                    Fulfilled response \<Rightarrow> []
                  | Rejected err \<Rightarrow>
                      [ConsoleError
                         (''[Hawk] Cannot send an event because of '' @ toString err)])))
   \<and> (hook_returns e this (Error ''Hawk NodeJS Catcher test message'') None None w \<longrightarrow>
      fst (test e this w) = Inr ()
      \<and> (\<exists>rq. requests (snd (test e this w)) = requests w @ [rq]
           \<and> console (snd (test e this w)) =
               console w @
                 (case fetch e rq of
                    Fulfilled response \<Rightarrow> []
                  | Rejected err \<Rightarrow>
                      [ConsoleError
                         (''[Hawk] Cannot send an event because of '' @ toString err)])))
   \<and> (\<forall>beforeSend ex.
        c_beforeSend this = Some beforeSend
        \<and> beforeSend (fst (composePayload e this error ctx user (heap w))) = Inl ex \<longrightarrow>
        fst (send e this error ctx user w) = Inl ex)
   \<and> (\<forall>beforeSend ex.
        c_beforeSend this = Some beforeSend
        \<and> beforeSend (fst (composePayload e this (Error ''Hawk NodeJS Catcher test message'')
             None None (heap w))) = Inl ex \<longrightarrow>
        fst (test e this w) = Inl ex)"
  by (auto simp add: hook_returns_def send_result send_requests send_console test_def
      split: option.splits sum.splits)

theorem send_never_raises_from_transport_witness:
  "hook_returns test_env
     \<lparr>c_type = ''errors/react-native'', c_token = ''eyJpbnRlZ3JhdGlvbklkIjoiYWJjIn0='',
      c_collectorEndpoint = ''https://abc.k1.hawk.so/'', c_context = None,
      c_beforeSend = Some redact_user\<rparr>
     (Error ''boom'') None None initial_world
   \<and> fst (send test_env
        \<lparr>c_type = ''errors/react-native'', c_token = ''eyJpbnRlZ3JhdGlvbklkIjoiYWJjIn0='',
         c_collectorEndpoint = ''https://abc.k1.hawk.so/'', c_context = None,
         c_beforeSend = Some redact_user\<rparr>
        (Error ''boom'') None None initial_world) = Inr ()
   \<and> console (snd (send test_env
        \<lparr>c_type = ''errors/react-native'', c_token = ''eyJpbnRlZ3JhdGlvbklkIjoiYWJjIn0='',
         c_collectorEndpoint = ''https://abc.k1.hawk.so/'', c_context = None,
         c_beforeSend = Some redact_user\<rparr>
        (Error ''boom'') None None initial_world))
     = [ConsoleError ''[Hawk] Cannot send an event because of TypeError: Network request failed'']
   \<and> fst (test test_env
        \<lparr>c_type = ''errors/react-native'', c_token = ''eyJpbnRlZ3JhdGlvbklkIjoiYWJjIn0='',
         c_collectorEndpoint = ''https://abc.k1.hawk.so/'', c_context = None,
         c_beforeSend = Some redact_user\<rparr>
        initial_world) = Inr ()
   \<and> fst (send (test_env\<lparr>fetch := server_error_fetch\<rparr>)
        \<lparr>c_type = ''errors/react-native'', c_token = ''eyJpbnRlZ3JhdGlvbklkIjoiYWJjIn0='',
         c_collectorEndpoint = ''https://abc.k1.hawk.so/'', c_context = None,
         c_beforeSend = Some redact_user\<rparr>
        (Error ''boom'') None None initial_world) = Inr ()
   \<and> console (snd (send (test_env\<lparr>fetch := server_error_fetch\<rparr>)
        \<lparr>c_type = ''errors/react-native'', c_token = ''eyJpbnRlZ3JhdGlvbklkIjoiYWJjIn0='',
         c_collectorEndpoint = ''https://abc.k1.hawk.so/'', c_context = None,
         c_beforeSend = Some redact_user\<rparr>
        (Error ''boom'') None None initial_world))
     = []"
proof -
  let ?c = "\<lparr>c_type = ''errors/react-native'', c_token = ''eyJpbnRlZ3JhdGlvbklkIjoiYWJjIn0='',
       c_collectorEndpoint = ''https://abc.k1.hawk.so/'', c_context = None,
       c_beforeSend = Some redact_user\<rparr>"
  have h: "\<And>e error. hook_returns e ?c error None None initial_world"
    by (simp add: hook_returns_def redact_user_def)
  have f: "\<And>rq. fetch test_env rq = Rejected (JsError ''TypeError'' ''Network request failed'')"
    by (simp add: test_env_def failing_fetch_def)
  have f': "\<And>rq. fetch (test_env\<lparr>fetch := server_error_fetch\<rparr>) rq
              = Fulfilled \<lparr>status = 500\<rparr>"
    by (simp add: server_error_fetch_def)
  have c: "console initial_world = []"
    by (simp add: initial_world_def)
  have rejected: "fst (send test_env ?c (Error ''boom'') None None initial_world) = Inr ()
      \<and> console (snd (send test_env ?c (Error ''boom'') None None initial_world))
        = [ConsoleError
             ''[Hawk] Cannot send an event because of TypeError: Network request failed'']
      \<and> fst (test test_env ?c initial_world) = Inr ()"
    using send_never_raises_from_transport [of test_env ?c "Error ''boom''" None None
        initial_world] h f c
    by (auto simp add: toString_def)
  have answered: "fst (send (test_env\<lparr>fetch := server_error_fetch\<rparr>) ?c (Error ''boom'')
                         None None initial_world) = Inr ()
      \<and> console (snd (send (test_env\<lparr>fetch := server_error_fetch\<rparr>) ?c (Error ''boom'')
                         None None initial_world)) = []"
    using send_never_raises_from_transport [of "test_env\<lparr>fetch := server_error_fetch\<rparr>" ?c
        "Error ''boom''" None None initial_world] h f' c
    by auto
  show ?thesis
    using rejected answered h by simp
qed

text \<open>
  \<^verbatim>\<open>Object.assign\<close> read key by key: apart from \<^verbatim>\<open>__proto__\<close>, the source overrides
  the target; a source without the key \<^verbatim>\<open>__proto__\<close> leaves the prototype alone.
\<close>

lemma props_proto_setter:
  "props (proto_setter v ob) = props ob"
  by (simp add: proto_setter_def split: json.split)

lemma Set_property_lookup:
  "k \<noteq> ''__proto__'' \<Longrightarrow>
     map_of (props (Set_property k' v ob)) k = ((map_of (props ob))(k' \<mapsto> v)) k"
  by (simp add: Set_property_def props_proto_setter update_conv')

lemma fold_Set_property_lookup:
  "distinct (map fst src) \<Longrightarrow> k \<noteq> ''__proto__'' \<Longrightarrow>
     map_of (props (fold (\<lambda>(k, v). Set_property k v) src ob)) k
       = (map_of (props ob) ++ map_of src) k"
proof (induction src arbitrary: ob)
  case Nil
  then show ?case by simp
next
  case (Cons p src)
  obtain k' v where p: "p = (k', v)" by (cases p)
  from Cons.prems p have fresh: "map_of src k' = None" and d: "distinct (map fst src)"
    by (auto simp add: map_of_eq_None_iff)
  have "map_of (props (fold (\<lambda>(k, v). Set_property k v) (p # src) ob)) k
          = (map_of (props (Set_property k' v ob)) ++ map_of src) k"
    using Cons.IH [OF d Cons.prems(2)] p by simp
  also have "\<dots> = (map_of (props ob) ++ map_of (p # src)) k"
    using fresh p Cons.prems(2)
    by (auto simp add: Set_property_lookup map_add_def split: option.split)
  finally show ?case .
qed

lemma fold_Set_property_plain:
  "map_of src ''__proto__'' = None \<Longrightarrow>
     proto (fold (\<lambda>(k, v). Set_property k v) src ob) = proto ob
     \<and> map_of (props (fold (\<lambda>(k, v). Set_property k v) src ob)) ''__proto__''
         = map_of (props ob) ''__proto__''"
proof (induction src arbitrary: ob)
  case Nil
  then show ?case by simp
next
  case (Cons p src)
  obtain k' v where p: "p = (k', v)" by (cases p)
  from Cons.prems p have k': "k' \<noteq> ''__proto__''" and rest: "map_of src ''__proto__'' = None"
    by (auto split: if_splits)
  from k' have step: "Set_property k' v ob = ob\<lparr>props := AList.update k' v (props ob)\<rparr>"
    by (simp add: Set_property_def)
  from Cons.IH [OF rest, of "Set_property k' v ob"] p step k' show ?case
    by (simp add: update_conv')
qed

lemma getContext_unfold:
  assumes "\<forall>d. c_context this = Some d \<longrightarrow> d < length h"
    and "\<forall>c. ctx = Some c \<longrightarrow> c < length h"
  shows "getContext this ctx h =
     (length h,
      h @ [fold (\<lambda>(k, v). Set_property k v)
             (case ctx of None \<Rightarrow> [] | Some c \<Rightarrow> props (h ! c))
             (fold (\<lambda>(k, v). Set_property k v)
                (case c_context this of None \<Rightarrow> [] | Some d \<Rightarrow> props (h ! d))
                \<lparr>props = [], proto = Object_prototype\<rparr>)])"
  using assms
  by (cases "c_context this"; cases ctx)
     (simp_all add: getContext_def Object_assign_def nth_append)

text \<open>
  Against claim C4 as it is written: a context with an own key \<^verbatim>\<open>__proto__\<close>, as
  \<^verbatim>\<open>JSON.parse\<close> makes it, given with the call or as the default context. The key is not
  in the merged object, whose properties are \<^verbatim>\<open>{"y":2}\<close>; its value has become the
  prototype of the merged object.
\<close>

theorem proto_key_counterexample:
  "getContext plain_catcher (Some 0)
     [\<lparr>props = [(''__proto__'', JObj [(''x'', JNum 1)]), (''y'', JNum 2)],
       proto = Object_prototype\<rparr>]
   = (1, [\<lparr>props = [(''__proto__'', JObj [(''x'', JNum 1)]), (''y'', JNum 2)],
            proto = Object_prototype\<rparr>,
          \<lparr>props = [(''y'', JNum 2)], proto = Value_prototype (JObj [(''x'', JNum 1)])\<rparr>])
   \<and> getContext (plain_catcher\<lparr>c_context := Some 0\<rparr>) None
     [\<lparr>props = [(''__proto__'', JObj [(''x'', JNum 1)]), (''y'', JNum 2)],
       proto = Object_prototype\<rparr>]
   = (1, [\<lparr>props = [(''__proto__'', JObj [(''x'', JNum 1)]), (''y'', JNum 2)],
            proto = Object_prototype\<rparr>,
          \<lparr>props = [(''y'', JNum 2)], proto = Value_prototype (JObj [(''x'', JNum 1)])\<rparr>])"
  by (simp add: double_defs catcher_defs)

text \<open>
  Claim C4 (amended). \<^verbatim>\<open>getContext\<close> returns a new object: its reference is not one of
  the store it was called on, and every object of that store, so both inputs, is as
  before. With \<open>D\<close> the properties of the default context and \<open>C\<close> those of the context
  of the call (none when absent), the new object maps every key other than
  \<^verbatim>\<open>__proto__\<close> to the value \<open>C\<close> gives it, and to the value of \<open>D\<close> when \<open>C\<close> gives
  none; when neither context has the key \<^verbatim>\<open>__proto__\<close> that is the whole mapping.
  Merging \<^verbatim>\<open>{a:1,b:2}\<close> with \<^verbatim>\<open>{b:3,c:4}\<close> yields \<^verbatim>\<open>{a:1,b:3,c:4}\<close>, and merging two
  absent contexts yields the empty object. (The references name objects of the store,
  and an object has each key once.)
\<close>

theorem getContext_merges:
  assumes "\<forall>d. c_context this = Some d \<longrightarrow>
             d < length h \<and> distinct (map fst (props (h ! d)))"
    and "\<forall>c. ctx = Some c \<longrightarrow> c < length h \<and> distinct (map fst (props (h ! c)))"
    and "D = (case c_context this of None \<Rightarrow> [] | Some d \<Rightarrow> props (h ! d))"
    and "C = (case ctx of None \<Rightarrow> [] | Some c \<Rightarrow> props (h ! c))"
  shows "(\<exists>merged. getContext this ctx h = (length h, h @ [merged])
            \<and> (\<forall>k. k \<noteq> ''__proto__'' \<longrightarrow>
                  map_of (props merged) k = (map_of D ++ map_of C) k)
            \<and> (map_of D ''__proto__'' = None \<and> map_of C ''__proto__'' = None \<longrightarrow>
                  map_of (props merged) = map_of D ++ map_of C))
       \<and> getContext (this\<lparr>c_context := Some 0\<rparr>) (Some 1)
           [\<lparr>props = [(''a'', JNum 1), (''b'', JNum 2)], proto = Object_prototype\<rparr>,
            \<lparr>props = [(''b'', JNum 3), (''c'', JNum 4)], proto = Object_prototype\<rparr>]
         = (2, [\<lparr>props = [(''a'', JNum 1), (''b'', JNum 2)], proto = Object_prototype\<rparr>,
                \<lparr>props = [(''b'', JNum 3), (''c'', JNum 4)], proto = Object_prototype\<rparr>,
                \<lparr>props = [(''a'', JNum 1), (''b'', JNum 3), (''c'', JNum 4)],
                 proto = Object_prototype\<rparr>])
       \<and> getContext (this\<lparr>c_context := None\<rparr>) None h
         = (length h, h @ [\<lparr>props = [], proto = Object_prototype\<rparr>])"
proof (intro conjI)
  let ?F = "\<lambda>(k, v). Set_property k v"
  let ?m1 = "fold ?F D \<lparr>props = [], proto = Object_prototype\<rparr>"
  let ?merged = "fold ?F C ?m1"
  have dD: "distinct (map fst D)" and dC: "distinct (map fst C)"
    using assms by (auto split: option.splits)
  have result: "getContext this ctx h = (length h, h @ [?merged])"
    using assms getContext_unfold [of this h ctx] by simp
  have keys: "map_of (props ?merged) k = (map_of D ++ map_of C) k"
    if "k \<noteq> ''__proto__''" for k
    using that fold_Set_property_lookup [OF dC that, of ?m1]
      fold_Set_property_lookup [OF dD that, of "\<lparr>props = [], proto = Object_prototype\<rparr>"]
    by (simp add: map_add_def split: option.split)
  have whole: "map_of (props ?merged) = map_of D ++ map_of C"
    if plain: "map_of D ''__proto__'' = None \<and> map_of C ''__proto__'' = None"
  proof (rule ext)
    fix k
    show "map_of (props ?merged) k = (map_of D ++ map_of C) k"
    proof (cases "k = ''__proto__''")
      case False
      then show ?thesis by (rule keys)
    next
      case True
      from plain have "map_of (props ?merged) ''__proto__'' = None"
        using fold_Set_property_plain [of C ?m1]
          fold_Set_property_plain [of D "\<lparr>props = [], proto = Object_prototype\<rparr>"]
        by simp
      with plain True show ?thesis
        by (simp add: map_add_def)
    qed
  qed
  from result keys whole
  show "\<exists>merged. getContext this ctx h = (length h, h @ [merged])
            \<and> (\<forall>k. k \<noteq> ''__proto__'' \<longrightarrow>
                  map_of (props merged) k = (map_of D ++ map_of C) k)
            \<and> (map_of D ''__proto__'' = None \<and> map_of C ''__proto__'' = None \<longrightarrow>
                  map_of (props merged) = map_of D ++ map_of C)"
    by blast
next
  show "getContext (this\<lparr>c_context := Some 0\<rparr>) (Some 1)
           [\<lparr>props = [(''a'', JNum 1), (''b'', JNum 2)], proto = Object_prototype\<rparr>,
            \<lparr>props = [(''b'', JNum 3), (''c'', JNum 4)], proto = Object_prototype\<rparr>]
         = (2, [\<lparr>props = [(''a'', JNum 1), (''b'', JNum 2)], proto = Object_prototype\<rparr>,
                \<lparr>props = [(''b'', JNum 3), (''c'', JNum 4)], proto = Object_prototype\<rparr>,
                \<lparr>props = [(''a'', JNum 1), (''b'', JNum 3), (''c'', JNum 4)],
                 proto = Object_prototype\<rparr>])"
    by (simp add: getContext_def Object_assign_def Set_property_def)
next
  show "getContext (this\<lparr>c_context := None\<rparr>) None h
         = (length h, h @ [\<lparr>props = [], proto = Object_prototype\<rparr>])"
    by (simp add: getContext_def)
qed

theorem getContext_merges_witness:
  "(\<exists>merged.
      getContext (plain_catcher\<lparr>c_context := Some 0\<rparr>) (Some 1)
        [\<lparr>props = [(''plan'', JStr ''free''), (''build'', JNum 7)], proto = Object_prototype\<rparr>,
         \<lparr>props = [(''__proto__'', JNull), (''plan'', JStr ''pro'')], proto = Object_prototype\<rparr>]
      = (2, [\<lparr>props = [(''plan'', JStr ''free''), (''build'', JNum 7)],
               proto = Object_prototype\<rparr>,
             \<lparr>props = [(''__proto__'', JNull), (''plan'', JStr ''pro'')],
               proto = Object_prototype\<rparr>]
            @ [merged])
      \<and> map_of (props merged) ''plan'' = Some (JStr ''pro'')
      \<and> map_of (props merged) ''build'' = Some (JNum 7))
   \<and> (\<exists>merged.
      getContext (plain_catcher\<lparr>c_context := Some 0\<rparr>) (Some 1)
        [\<lparr>props = [(''plan'', JStr ''free''), (''build'', JNum 7)], proto = Object_prototype\<rparr>,
         \<lparr>props = [(''plan'', JStr ''pro'')], proto = Object_prototype\<rparr>]
      = (2, [\<lparr>props = [(''plan'', JStr ''free''), (''build'', JNum 7)],
               proto = Object_prototype\<rparr>,
             \<lparr>props = [(''plan'', JStr ''pro'')], proto = Object_prototype\<rparr>]
            @ [merged])
      \<and> map_of (props merged) = [''plan'' \<mapsto> JStr ''pro'', ''build'' \<mapsto> JNum 7])"
proof -
  let ?c = "plain_catcher\<lparr>c_context := Some 0\<rparr>"
  let ?D = "[(''plan'', JStr ''free''), (''build'', JNum 7)]"
  let ?C = "[(''__proto__'', JNull), (''plan'', JStr ''pro'')]"
  let ?C' = "[(''plan'', JStr ''pro'')]"
  let ?h = "[\<lparr>props = ?D, proto = Object_prototype\<rparr>, \<lparr>props = ?C, proto = Object_prototype\<rparr>]"
  let ?h' = "[\<lparr>props = ?D, proto = Object_prototype\<rparr>, \<lparr>props = ?C', proto = Object_prototype\<rparr>]"
  have a: "\<forall>d. c_context ?c = Some d \<longrightarrow> d < length ?h \<and> distinct (map fst (props (?h ! d)))"
    by simp
  have b: "\<forall>c. Some (1::nat) = Some c \<longrightarrow> c < length ?h \<and> distinct (map fst (props (?h ! c)))"
    by simp
  have D: "?D = (case c_context ?c of None \<Rightarrow> [] | Some d \<Rightarrow> props (?h ! d))"
    by simp
  have C: "?C = (case Some (1::nat) of None \<Rightarrow> [] | Some c \<Rightarrow> props (?h ! c))"
    by simp
  from getContext_merges [OF a b D C] obtain merged
    where m: "getContext ?c (Some 1) ?h = (length ?h, ?h @ [merged])"
      "\<forall>k. k \<noteq> ''__proto__'' \<longrightarrow> map_of (props merged) k = (map_of ?D ++ map_of ?C) k"
    by blast
  from m(2) have "map_of (props merged) ''plan'' = Some (JStr ''pro'')"
    "map_of (props merged) ''build'' = Some (JNum 7)"
    by (simp_all add: map_add_def)
  with m(1) have first: "\<exists>merged. getContext ?c (Some 1) ?h = (2, ?h @ [merged])
      \<and> map_of (props merged) ''plan'' = Some (JStr ''pro'')
      \<and> map_of (props merged) ''build'' = Some (JNum 7)"
    by simp
  have a': "\<forall>d. c_context ?c = Some d \<longrightarrow> d < length ?h' \<and> distinct (map fst (props (?h' ! d)))"
    by simp
  have b': "\<forall>c. Some (1::nat) = Some c \<longrightarrow> c < length ?h' \<and> distinct (map fst (props (?h' ! c)))"
    by simp
  have D': "?D = (case c_context ?c of None \<Rightarrow> [] | Some d \<Rightarrow> props (?h' ! d))"
    by simp
  have C': "?C' = (case Some (1::nat) of None \<Rightarrow> [] | Some c \<Rightarrow> props (?h' ! c))"
    by simp
  from getContext_merges [OF a' b' D' C'] obtain merged'
    where m': "getContext ?c (Some 1) ?h' = (length ?h', ?h' @ [merged'])"
      "map_of ?D ''__proto__'' = None \<and> map_of ?C' ''__proto__'' = None \<longrightarrow>
         map_of (props merged') = map_of ?D ++ map_of ?C'"
    by blast
  from m'(2) have "map_of (props merged') = [''plan'' \<mapsto> JStr ''pro'', ''build'' \<mapsto> JNum 7]"
    by (auto simp add: map_add_def fun_eq_iff)
  with m'(1) have second: "\<exists>merged. getContext ?c (Some 1) ?h' = (2, ?h' @ [merged])
      \<and> map_of (props merged) = [''plan'' \<mapsto> JStr ''pro'', ''build'' \<mapsto> JNum 7]"
    by simp
  from first second show ?thesis
    by simp
qed

text \<open>A run of \<^verbatim>\<open>HawkCatcher.send\<close> calls keeps the singleton and its routing.\<close>

lemma init_success:
  assumes "HawkCatcher_init e arg w = (Inr (), w')"
  shows "\<exists>this wc. Catcher_constructor e arg w = (Inr this, wc)
           \<and> w' = wc\<lparr>hawk_instance := Some this\<rparr>"
  using assms
  by (cases "Catcher_constructor e arg w")
     (auto simp add: HawkCatcher_init_def split: sum.splits)

lemma send_routes_to_own_endpoint:
  "\<exists>new. requests (snd (send e this error ctx user w)) = requests w @ new
     \<and> (\<forall>rq \<in> set new. rq_url rq = c_collectorEndpoint this \<and> ev_token (rq_body rq) = c_token this)"
  by (auto simp add: send_requests split: option.split sum.split)

lemma facade_sends_route:
  "hawk_instance w = Some this \<Longrightarrow>
     hawk_instance (facade_sends e calls w) = Some this
     \<and> (\<exists>new. requests (facade_sends e calls w) = requests w @ new
          \<and> (\<forall>rq \<in> set new.
                rq_url rq = c_collectorEndpoint this \<and> ev_token (rq_body rq) = c_token this))"
proof (induction calls arbitrary: w)
  case Nil
  then show ?case by simp
next
  case (Cons call calls)
  obtain error ctx user where call: "call = (error, ctx, user)"
    by (cases call)
  let ?w = "snd (HawkCatcher_send e error ctx user w)"
  from Cons.prems have step: "?w = snd (send e this error ctx user w)"
    by (simp add: HawkCatcher_send_def)
  then have inst: "hawk_instance ?w = Some this"
    using Cons.prems by (simp add: send_instance)
  from step send_routes_to_own_endpoint [of e this error ctx user w] obtain new1
    where n1: "requests ?w = requests w @ new1"
      "\<forall>rq \<in> set new1. rq_url rq = c_collectorEndpoint this \<and> ev_token (rq_body rq) = c_token this"
    by auto
  from Cons.IH [OF inst] obtain new2
    where n2: "hawk_instance (facade_sends e calls ?w) = Some this"
      "requests (facade_sends e calls ?w) = requests ?w @ new2"
      "\<forall>rq \<in> set new2. rq_url rq = c_collectorEndpoint this \<and> ev_token (rq_body rq) = c_token this"
    by auto
  have "requests (facade_sends e (call # calls) w) = requests w @ (new1 @ new2)"
    using call n1(1) n2(2) by simp
  moreover have "\<forall>rq \<in> set (new1 @ new2).
      rq_url rq = c_collectorEndpoint this \<and> ev_token (rq_body rq) = c_token this"
    using n1(2) n2(3) by auto
  moreover have "hawk_instance (facade_sends e (call # calls) w) = Some this"
    using call n2(1) by simp
  ultimately show ?case by blast
qed

text \<open>
  Claim C9. Let a first \<^verbatim>\<open>HawkCatcher.init\<close> have returned, so that \<^verbatim>\<open>_instance\<close> is
  set, and let \<open>this\<close> be the catcher the constructor builds from the second settings
  alone, in whatever world. Then the second \<^verbatim>\<open>HawkCatcher.init\<close> returns without an
  error and \<^verbatim>\<open>_instance\<close> is \<open>this\<close>. Every later \<^verbatim>\<open>HawkCatcher.send\<close> is
  \<^verbatim>\<open>send\<close> of \<open>this\<close>, and however many calls follow, \<^verbatim>\<open>_instance\<close> stays and
  every request they add goes to the endpoint of \<open>this\<close> and carries its token.
\<close>

theorem second_init_replaces_singleton:
  assumes "HawkCatcher_init e settings1 w0 = (Inr (), w1)"
    and "fst (Catcher_constructor e settings2 w) = Inr this"
    and "w2 = snd (HawkCatcher_init e settings2 w1)"
  shows "hawk_instance w1 \<noteq> None
       \<and> fst (HawkCatcher_init e settings2 w1) = Inr ()
       \<and> hawk_instance w2 = Some this
       \<and> (\<forall>error ctx user.
            HawkCatcher_send e error ctx user w2 = send e this error ctx user w2)
       \<and> (\<forall>calls.
            hawk_instance (facade_sends e calls w2) = Some this
            \<and> (\<exists>new. requests (facade_sends e calls w2) = requests w2 @ new
                 \<and> (\<forall>rq \<in> set new.
                       rq_url rq = c_collectorEndpoint this
                       \<and> ev_token (rq_body rq) = c_token this)))"
proof -
  from init_success [OF assms(1)] have first: "hawk_instance w1 \<noteq> None"
    by auto
  from assms(2) have "fst (Catcher_constructor e settings2 w1) = Inr this"
    using constructor_state_free [of e settings2 w1 w] by simp
  then obtain wc where c: "Catcher_constructor e settings2 w1 = (Inr this, wc)"
    by (cases "Catcher_constructor e settings2 w1") simp
  then have init2: "HawkCatcher_init e settings2 w1 = (Inr (), wc\<lparr>hawk_instance := Some this\<rparr>)"
    by (simp add: HawkCatcher_init_def)
  with assms(3) have inst: "hawk_instance w2 = Some this"
    by simp
  from inst have delegate: "\<forall>error ctx user.
      HawkCatcher_send e error ctx user w2 = send e this error ctx user w2"
    by (simp add: HawkCatcher_send_def)
  from inst have later: "\<forall>calls.
      hawk_instance (facade_sends e calls w2) = Some this
      \<and> (\<exists>new. requests (facade_sends e calls w2) = requests w2 @ new
           \<and> (\<forall>rq \<in> set new.
                 rq_url rq = c_collectorEndpoint this \<and> ev_token (rq_body rq) = c_token this))"
    using facade_sends_route by blast
  from first init2 inst delegate later show ?thesis
    by simp
qed

theorem second_init_replaces_singleton_witness:
  "HawkCatcher_init test_env (TokenString ''eyJpbnRlZ3JhdGlvbklkIjoiYWJjIn0='') initial_world
     = (Inr (),
        initial_world
          \<lparr>globalHandler :=
             Some \<lparr>c_type = ''errors/react-native'',
                   c_token = ''eyJpbnRlZ3JhdGlvbklkIjoiYWJjIn0='',
                   c_collectorEndpoint = ''https://abc.k1.hawk.so/'', c_context = None,
                   c_beforeSend = None\<rparr>,
           hawk_instance :=
             Some \<lparr>c_type = ''errors/react-native'',
                   c_token = ''eyJpbnRlZ3JhdGlvbklkIjoiYWJjIn0='',
                   c_collectorEndpoint = ''https://abc.k1.hawk.so/'', c_context = None,
                   c_beforeSend = None\<rparr>\<rparr>)
   \<and> fst (HawkCatcher_init test_env (TokenString ''eyJpbnRlZ3JhdGlvbklkIjoieHl6In0='')
          (snd (HawkCatcher_init test_env (TokenString ''eyJpbnRlZ3JhdGlvbklkIjoiYWJjIn0='')
             initial_world))) = Inr ()
   \<and> hawk_instance
        (snd (HawkCatcher_init test_env (TokenString ''eyJpbnRlZ3JhdGlvbklkIjoieHl6In0='')
           (snd (HawkCatcher_init test_env (TokenString ''eyJpbnRlZ3JhdGlvbklkIjoiYWJjIn0='')
              initial_world))))
     = Some \<lparr>c_type = ''errors/react-native'', c_token = ''eyJpbnRlZ3JhdGlvbklkIjoieHl6In0='',
             c_collectorEndpoint = ''https://xyz.k1.hawk.so/'', c_context = None,
             c_beforeSend = None\<rparr>
   \<and> map rq_url (requests (facade_sends test_env
          [(Error ''first'', None, None), (Error ''second'', None, None)]
          (snd (HawkCatcher_init test_env (TokenString ''eyJpbnRlZ3JhdGlvbklkIjoieHl6In0='')
             (snd (HawkCatcher_init test_env (TokenString ''eyJpbnRlZ3JhdGlvbklkIjoiYWJjIn0='')
                initial_world))))))
     = [''https://xyz.k1.hawk.so/'', ''https://xyz.k1.hawk.so/'']"
proof -
  let ?c2 = "\<lparr>c_type = ''errors/react-native'', c_token = ''eyJpbnRlZ3JhdGlvbklkIjoieHl6In0='',
             c_collectorEndpoint = ''https://xyz.k1.hawk.so/'', c_context = None,
             c_beforeSend = None\<rparr>"
  let ?w1 = "snd (HawkCatcher_init test_env (TokenString ''eyJpbnRlZ3JhdGlvbklkIjoiYWJjIn0='')
               initial_world)"
  let ?w2 = "snd (HawkCatcher_init test_env (TokenString ''eyJpbnRlZ3JhdGlvbklkIjoieHl6In0='')
               ?w1)"
  have first: "HawkCatcher_init test_env (TokenString ''eyJpbnRlZ3JhdGlvbklkIjoiYWJjIn0='')
       initial_world
     = (Inr (),
        initial_world
          \<lparr>globalHandler :=
             Some \<lparr>c_type = ''errors/react-native'',
                   c_token = ''eyJpbnRlZ3JhdGlvbklkIjoiYWJjIn0='',
                   c_collectorEndpoint = ''https://abc.k1.hawk.so/'', c_context = None,
                   c_beforeSend = None\<rparr>,
           hawk_instance :=
             Some \<lparr>c_type = ''errors/react-native'',
                   c_token = ''eyJpbnRlZ3JhdGlvbklkIjoiYWJjIn0='',
                   c_collectorEndpoint = ''https://abc.k1.hawk.so/'', c_context = None,
                   c_beforeSend = None\<rparr>\<rparr>)"
    by (simp add: double_defs catcher_defs)
  then have i1: "HawkCatcher_init test_env (TokenString ''eyJpbnRlZ3JhdGlvbklkIjoiYWJjIn0='')
              initial_world = (Inr (), ?w1)"
    by simp
  have v2: "fst (Catcher_constructor test_env (TokenString ''eyJpbnRlZ3JhdGlvbklkIjoieHl6In0='')
              initial_world) = Inr ?c2"
    by (simp add: double_defs catcher_defs)
  note claim = second_init_replaces_singleton [OF i1 v2 refl]
  from claim have ok: "fst (HawkCatcher_init test_env
      (TokenString ''eyJpbnRlZ3JhdGlvbklkIjoieHl6In0='') ?w1) = Inr ()"
    and inst: "hawk_instance ?w2 = Some ?c2"
    by blast+
  from claim obtain new
    where new: "requests (facade_sends test_env
                  [(Error ''first'', None, None), (Error ''second'', None, None)] ?w2)
                = requests ?w2 @ new"
      "\<forall>rq \<in> set new. rq_url rq = c_collectorEndpoint ?c2"
    by blast
  have before: "requests ?w2 = []"
    by (simp add: double_defs catcher_defs)
  have len: "length (requests (facade_sends test_env
                  [(Error ''first'', None, None), (Error ''second'', None, None)] ?w2)) = 2"
    by (simp add: inst HawkCatcher_send_def send_instance send_requests before)
  from new before len have "length new = 2" and "\<forall>rq \<in> set new. rq_url rq = ''https://xyz.k1.hawk.so/''"
    by simp_all
  then have "map rq_url new = [''https://xyz.k1.hawk.so/'', ''https://xyz.k1.hawk.so/'']"
    by (cases new; cases "tl new") auto
  with new(1) before have urls: "map rq_url (requests (facade_sends test_env
          [(Error ''first'', None, None), (Error ''second'', None, None)] ?w2))
      = [''https://xyz.k1.hawk.so/'', ''https://xyz.k1.hawk.so/'']"
    by simp
  from first ok inst urls show ?thesis
    by (intro conjI)
qed

end
